theory Spec2Isabelle
  imports Main
begin

section \<open>Python values and built-ins used by run-aider.py\<close>

text \<open>
  A string of the script is modelled as a \<^typ>\<open>string\<close>: a list of characters with the
  code points 0 to 255. On these code points the character classes below are Python's
  \<^verbatim>\<open>str.isspace\<close> (which \<^verbatim>\<open>str.strip\<close> removes), \<^verbatim>\<open>str.isdigit\<close>, the decimal digits
  that \<^verbatim>\<open>int\<close> reads, and the regular expression class \<^verbatim>\<open>\w\<close>; a text with a code
  point from 256 on has no counterpart here. An exception that the script does not catch
  ends the process with a traceback; the ones that can arise from the modelled code are
  listed in \<open>py_exc\<close>. What the script prints is modelled where a property is about it
  (the lines of a menu, the messages of \<^verbatim>\<open>check_api_key\<close>); the rendering of the
  screens is not, except for the two calls in it that can raise.
\<close>

datatype py_exc = IndexError | ValueError | TypeError | OSError | FileNotFoundError

definition py_getitem :: "'a list \<Rightarrow> nat \<Rightarrow> py_exc + 'a" where
  "py_getitem xs i = (if i < length xs then Inr (xs ! i) else Inl IndexError)"

definition py_setitem :: "'a list \<Rightarrow> nat \<Rightarrow> 'a \<Rightarrow> py_exc + 'a list" where
  "py_setitem xs i v = (if i < length xs then Inr (xs[i := v]) else Inl IndexError)"

text \<open>\<^verbatim>\<open>list.index\<close>: the first position of the element; \<open>None\<close> stands for ValueError.\<close>

fun py_index :: "'a list \<Rightarrow> 'a \<Rightarrow> nat option" where
  "py_index [] x = None"
| "py_index (y # ys) x = (if y = x then Some 0 else map_option Suc (py_index ys x))"

text \<open>Truthiness of \<^verbatim>\<open>os.environ.get(var)\<close>: the variable is set and not empty.\<close>

definition truthy :: "string option \<Rightarrow> bool" where
  "truthy v = (case v of None \<Rightarrow> False | Some s \<Rightarrow> s \<noteq> [])"

text \<open>
  \<^verbatim>\<open>str.isspace\<close> on one character: the ASCII white space, the separators 0x1C to
  0x1F, the next-line control 0x85 and the no-break space 0xA0.
\<close>

definition isspace :: "char \<Rightarrow> bool" where
  "isspace c = (c \<in> set [CHR 0x09, CHR 0x0A, CHR 0x0B, CHR 0x0C, CHR 0x0D,
                          CHR 0x1C, CHR 0x1D, CHR 0x1E, CHR 0x1F, CHR 0x20,
                          CHR 0x85, CHR 0xA0])"

definition strip :: "string \<Rightarrow> string" where
  "strip s = rev (dropWhile isspace (rev (dropWhile isspace s)))"

text \<open>
  The decimal digits, and the characters that \<^verbatim>\<open>str.isdigit\<close> accepts: the decimal
  digits and the superscripts two, three (0xB2, 0xB3) and one (0xB9).
\<close>

definition isdecimal_char :: "char \<Rightarrow> bool" where
  "isdecimal_char c = (c \<in> set ''0123456789'')"

definition isdigit_char :: "char \<Rightarrow> bool" where
  "isdigit_char c = (isdecimal_char c \<or> c \<in> set [CHR 0xB2, CHR 0xB3, CHR 0xB9])"

text \<open>\<^verbatim>\<open>str.isdigit\<close>: at least one character and all of them digits.\<close>

definition isdigit :: "string \<Rightarrow> bool" where
  "isdigit s = (s \<noteq> [] \<and> list_all isdigit_char s)"

text \<open>The value of a decimal digit: its position in "0123456789".\<close>

definition digit_val :: "char \<Rightarrow> int" where
  "digit_val c = (case py_index ''0123456789'' c of None \<Rightarrow> 0 | Some i \<Rightarrow> int i)"

text \<open>
  The limit of the interpreter on the number of digits of a string that \<^verbatim>\<open>int\<close>
  converts (\<^verbatim>\<open>sys.get_int_max_str_digits()\<close>, by default 4300).
\<close>

definition int_max_str_digits :: nat where
  "int_max_str_digits = 4300"

text \<open>
  \<^verbatim>\<open>int(choice)\<close> as the script calls it, on a string for which \<^verbatim>\<open>choice.isdigit()\<close>
  holds (so without sign, blank or underscore): the number that the decimal digits
  denote; ValueError when a character is a digit that is not decimal (a superscript) and
  when there are more digits than the limit.
\<close>

definition py_int :: "string \<Rightarrow> py_exc + int" where
  "py_int s =
     (if list_all isdecimal_char s \<and> length s \<le> int_max_str_digits
      then Inr (foldl (\<lambda>n c. 10 * n + digit_val c) 0 s)
      else Inl ValueError)"

text \<open>
  The class \<^verbatim>\<open>\w\<close> of a pattern on \<^verbatim>\<open>str\<close>: the underscore and the alphanumeric
  characters, which beyond ASCII are the ordinal indicators 0xAA and 0xBA, the
  superscripts 0xB2, 0xB3 and 0xB9, the micro sign 0xB5, the fractions 0xBC to 0xBE, and
  the letters from 0xC0 on (all but the multiplication sign 0xD7 and the division sign
  0xF7).
\<close>

definition is_word_char :: "char \<Rightarrow> bool" where
  "is_word_char c =
     (c \<in> set ''abcdefghijklmnopqrstuvwxyzABCDEFGHIJKLMNOPQRSTUVWXYZ0123456789_'' \<or>
      c \<in> set [CHR 0xAA, CHR 0xB2, CHR 0xB3, CHR 0xB5, CHR 0xB9, CHR 0xBA, CHR 0xBC, CHR 0xBD,
                CHR 0xBE] \<or>
      (192 \<le> (of_char c :: nat) \<and> c \<noteq> CHR 0xD7 \<and> c \<noteq> CHR 0xF7))"

definition is_quote :: "char \<Rightarrow> bool" where
  "is_quote c = (c = CHR 0x22 \<or> c = CHR 0x27)"

section \<open>Global configuration of the script\<close>

text \<open>
  An entry of \<^verbatim>\<open>VENDOR_API_KEY_VARS\<close> is a string, or for GOOGLE a list of strings
  (\<^verbatim>\<open>isinstance(api_key_vars, list)\<close>).
\<close>

datatype key_vars = Single string | Multi "string list"

text \<open>
  The module-level globals that the three components read. \<^verbatim>\<open>VENDORS\<close>,
  \<^verbatim>\<open>VENDOR_API_KEY_VARS\<close> and \<^verbatim>\<open>VENDOR_KEY_SOURCE\<close> are parallel lists;
  \<open>environ\<close> is \<^verbatim>\<open>os.environ\<close>.
\<close>

record globals =
  VENDORS :: "string list"
  VENDOR_MODELS :: "string \<rightharpoonup> string list"
  CODE_EDIT_FORMATS :: "string list"
  ARCHITECT_EDIT_FORMATS :: "string list"
  VENDOR_API_KEY_VARS :: "key_vars list"
  VENDOR_KEY_SOURCE :: "string list"
  environ :: "string \<rightharpoonup> string"

text \<open>The validated content of aider_config.json, as \<^verbatim>\<open>load_json_config\<close> returns it.\<close>

record config =
  cfg_vendors :: "string list"
  cfg_models :: "string \<rightharpoonup> string list"
  cfg_code_formats :: "string list"
  cfg_architect_formats :: "string list"

text \<open>
  \<^verbatim>\<open>initialize_configuration\<close>: every vendor gets the variable name
  \<^verbatim>\<open>f"{vendor}_API_KEY"\<close>; the entry at \<^verbatim>\<open>VENDORS.index("GOOGLE")\<close> is replaced by the
  two-name list; every source starts as "unset".
\<close>

definition vendor_key_vars :: "string list \<Rightarrow> key_vars list" where
  "vendor_key_vars vendors =
     (let vars = map (\<lambda>vendor. Single (vendor @ ''_API_KEY'')) vendors
      in case py_index vendors ''GOOGLE'' of
           None \<Rightarrow> vars
         | Some google_index \<Rightarrow> vars[google_index := Multi [''GEMINI_API_KEY'', ''GOOGLE_API_KEY'']])"

definition initialize_configuration :: "config \<Rightarrow> (string \<rightharpoonup> string) \<Rightarrow> globals" where
  "initialize_configuration cfg env =
     \<lparr> VENDORS = cfg_vendors cfg,
       VENDOR_MODELS = cfg_models cfg,
       CODE_EDIT_FORMATS = cfg_code_formats cfg,
       ARCHITECT_EDIT_FORMATS = cfg_architect_formats cfg,
       VENDOR_API_KEY_VARS = vendor_key_vars (cfg_vendors cfg),
       VENDOR_KEY_SOURCE = replicate (length (cfg_vendors cfg)) ''unset'',
       environ = env \<rparr>"

text \<open>
  What \<^verbatim>\<open>initialize_configuration\<close> establishes and no later code changes: the parallel
  lists have the length of \<^verbatim>\<open>VENDORS\<close> and the variable names are the ones derived from
  the vendor names.
\<close>

definition wf_globals :: "globals \<Rightarrow> bool" where
  "wf_globals g =
     (VENDOR_API_KEY_VARS g = vendor_key_vars (VENDORS g) \<and>
      length (VENDOR_KEY_SOURCE g) = length (VENDORS g))"

section \<open>CredentialResolver\<close>

subsection \<open>Environment pass\<close>

text \<open>
  The inner loop of \<^verbatim>\<open>_load_keys_from_env\<close> over a list entry: the first variable that
  is set decides; when that variable is GOOGLE_API_KEY and GEMINI_API_KEY is not set, the
  value is copied to GEMINI_API_KEY. \<open>None\<close>: no variable of the list is set
  (\<^verbatim>\<open>found_key\<close> stays False).
\<close>

fun env_scan_vars :: "(string \<rightharpoonup> string) \<Rightarrow> string list \<Rightarrow> (string \<rightharpoonup> string) option" where
  "env_scan_vars env [] = None"
| "env_scan_vars env (var # vars) =
     (if truthy (env var)
      then Some (if var = ''GOOGLE_API_KEY'' \<and> \<not> truthy (env ''GEMINI_API_KEY'')
                 then env(''GEMINI_API_KEY'' := env ''GOOGLE_API_KEY'')
                 else env)
      else env_scan_vars env vars)"

text \<open>
  One iteration of \<^verbatim>\<open>for i, vendor in enumerate(VENDORS)\<close>; the boolean is whether a key
  was found for this vendor.
\<close>

definition load_env_vendor :: "globals \<Rightarrow> nat \<Rightarrow> py_exc + (bool \<times> globals)" where
  "load_env_vendor g i =
     (case py_getitem (VENDOR_API_KEY_VARS g) i of
        Inl e \<Rightarrow> Inl e
      | Inr (Multi vars) \<Rightarrow>
          (case env_scan_vars (environ g) vars of
             Some env' \<Rightarrow>
               (case py_setitem (VENDOR_KEY_SOURCE g) i ''env'' of
                  Inl e \<Rightarrow> Inl e
                | Inr src \<Rightarrow> Inr (True, g\<lparr>VENDOR_KEY_SOURCE := src, environ := env'\<rparr>))
           | None \<Rightarrow>
               (case py_setitem (VENDOR_KEY_SOURCE g) i ''unset'' of
                  Inl e \<Rightarrow> Inl e
                | Inr src \<Rightarrow> Inr (False, g\<lparr>VENDOR_KEY_SOURCE := src\<rparr>)))
      | Inr (Single var) \<Rightarrow>
          (if truthy (environ g var)
           then (case py_setitem (VENDOR_KEY_SOURCE g) i ''env'' of
                   Inl e \<Rightarrow> Inl e
                 | Inr src \<Rightarrow> Inr (True, g\<lparr>VENDOR_KEY_SOURCE := src\<rparr>))
           else (case py_setitem (VENDOR_KEY_SOURCE g) i ''unset'' of
                   Inl e \<Rightarrow> Inl e
                 | Inr src \<Rightarrow> Inr (False, g\<lparr>VENDOR_KEY_SOURCE := src\<rparr>))))"

text \<open>The loop over the vendor indices, carrying \<^verbatim>\<open>all_found\<close>.\<close>

fun load_env_loop :: "nat list \<Rightarrow> bool \<Rightarrow> globals \<Rightarrow> py_exc + (bool \<times> globals)" where
  "load_env_loop [] all_found g = Inr (all_found, g)"
| "load_env_loop (i # is) all_found g =
     (case load_env_vendor g i of
        Inl e \<Rightarrow> Inl e
      | Inr (found, g') \<Rightarrow> load_env_loop is (all_found \<and> found) g')"

definition load_keys_from_env :: "globals \<Rightarrow> py_exc + (bool \<times> globals)" where
  "load_keys_from_env g = load_env_loop [0..<length (VENDORS g)] True g"

subsection \<open>Credentials file pass\<close>

text \<open>
  The regular expression of \<^verbatim>\<open>_load_keys_from_file\<close>,
  \<^verbatim>\<open>^(\w+)=["\']?(.*?)["\']?$\<close>, on a stripped line without line break: group 1 is the
  longest run of word characters at the start, which must be non-empty and followed by
  \<open>=\<close>; an opening quote is consumed when there is one (the rest of the pattern matches
  any remainder, so the greedy choice is never undone); the lazy group 2 then is the
  remainder without its last character when that is a quote, else the whole remainder.
\<close>

definition match_assignment :: "string \<Rightarrow> (string \<times> string) option" where
  "match_assignment line =
     (let var_name = takeWhile is_word_char line
      in if var_name = [] then None
         else (case dropWhile is_word_char line of
                 [] \<Rightarrow> None
               | c # after_eq \<Rightarrow>
                   if c \<noteq> CHR ''='' then None
                   else let body = (case after_eq of
                                      [] \<Rightarrow> []
                                    | q # r \<Rightarrow> if is_quote q then r else after_eq)
                        in Some (var_name,
                                 if body \<noteq> [] \<and> is_quote (last body) then butlast body
                                 else body)))"

text \<open>
  \<^verbatim>\<open>for i, vendor_vars in enumerate(VENDOR_API_KEY_VARS)\<close> up to its \<^verbatim>\<open>break\<close>: the first
  index whose entry names the variable (membership for a list entry, equality otherwise).
\<close>

fun find_key_var :: "key_vars list \<Rightarrow> string \<Rightarrow> nat \<Rightarrow> nat option" where
  "find_key_var [] var_name i = None"
| "find_key_var (vendor_vars # rest) var_name i =
     (if (case vendor_vars of Multi vs \<Rightarrow> var_name \<in> set vs | Single v \<Rightarrow> var_name = v)
      then Some i
      else find_key_var rest var_name (Suc i))"

text \<open>
  The body of \<^verbatim>\<open>for line in f\<close>. The first component is False when an exception was
  raised, which the \<^verbatim>\<open>try\<close> around the whole loop catches, so that the remaining lines
  are not read: an IndexError from \<^verbatim>\<open>VENDOR_KEY_SOURCE[i]\<close>, or the ValueError of
  \<^verbatim>\<open>os.environ[var_name] = var_value\<close> for a value with a null character (raised after
  the source has been marked). The assignment to \<^verbatim>\<open>os.environ\<close> is not guarded by the
  source.
\<close>

definition load_file_line :: "globals \<Rightarrow> string \<Rightarrow> bool \<times> globals" where
  "load_file_line g raw =
     (let line = strip raw
      in if line = [] \<or> take 1 line = ''#'' then (True, g)
         else (case match_assignment line of
                 None \<Rightarrow> (True, g)
               | Some (var_name, var_value) \<Rightarrow>
                   (case find_key_var (VENDOR_API_KEY_VARS g) var_name 0 of
                      None \<Rightarrow> (True, g)
                    | Some i \<Rightarrow>
                        (case py_getitem (VENDOR_KEY_SOURCE g) i of
                           Inl e \<Rightarrow> (False, g)
                         | Inr source \<Rightarrow>
                             let g1 = (if source = ''unset''
                                       then g\<lparr>VENDOR_KEY_SOURCE := (VENDOR_KEY_SOURCE g)[i := ''file'']\<rparr>
                                       else g)
                             in if CHR 0x00 \<in> set var_value then (False, g1)
                                else (True, g1\<lparr>environ := (environ g1)(var_name \<mapsto> var_value)\<rparr>)))))"

fun load_file_lines :: "globals \<Rightarrow> string list \<Rightarrow> globals" where
  "load_file_lines g [] = g"
| "load_file_lines g (l # ls) =
     (case load_file_line g l of
        (True, g') \<Rightarrow> load_file_lines g' ls
      | (False, g') \<Rightarrow> g')"

text \<open>
  The file system is a map from the paths of the regular files to their lines, as
  \<^verbatim>\<open>for line in f\<close> yields them. A path that is no file leaves the globals as they are.
\<close>

definition load_keys_from_file :: "(string \<rightharpoonup> string list) \<Rightarrow> globals \<Rightarrow> string \<Rightarrow> globals" where
  "load_keys_from_file fs g keys_file_path =
     (case fs keys_file_path of
        None \<Rightarrow> g
      | Some lines \<Rightarrow> load_file_lines g lines)"

text \<open>
  \<^verbatim>\<open>_find_keys_file\<close>; \<open>secondary_file\<close> is \<^verbatim>\<open>os.path.expanduser("~/.llm_api_keys")\<close>.
\<close>

definition find_keys_file :: "(string \<rightharpoonup> string list) \<Rightarrow> string \<Rightarrow> globals \<Rightarrow> string option" where
  "find_keys_file fs secondary_file g =
     (case environ g ''PRIMARY_KEYS_FILE'' of
        Some primary_file \<Rightarrow>
          if primary_file \<noteq> [] \<and> fs primary_file \<noteq> None then Some primary_file
          else if fs secondary_file \<noteq> None then Some secondary_file
          else None
      | None \<Rightarrow> if fs secondary_file \<noteq> None then Some secondary_file else None)"

text \<open>\<^verbatim>\<open>load_api_keys\<close>: the environment pass, then the file pass whenever a file is found.\<close>

definition load_api_keys :: "(string \<rightharpoonup> string list) \<Rightarrow> string \<Rightarrow> globals \<Rightarrow> py_exc + globals" where
  "load_api_keys fs secondary_file g =
     (case load_keys_from_env g of
        Inl e \<Rightarrow> Inl e
      | Inr (all_found, g1) \<Rightarrow>
          (case find_keys_file fs secondary_file g1 of
             None \<Rightarrow> Inr g1
           | Some keys_file_path \<Rightarrow> Inr (load_keys_from_file fs g1 keys_file_path)))"

subsection \<open>Availability check\<close>

text \<open>
  How \<^verbatim>\<open>check_api_key\<close> ends: it returns, it calls \<^verbatim>\<open>sys.exit\<close> after printing the
  given lines to stderr, or an exception leaves it (only ValueError is caught).
\<close>

datatype check_outcome = Passed | Exits int "string list" | Raises py_exc

text \<open>
  \<^verbatim>\<open>f"{api_key_vars}"\<close>: the name itself, or for a list Python's display of a list of
  strings (quotes and backslashes inside a name are not escaped here; the names of the
  script contain none).
\<close>

fun py_join :: "string \<Rightarrow> string list \<Rightarrow> string" where
  "py_join sep [] = []"
| "py_join sep [x] = x"
| "py_join sep (x # y # ys) = x @ sep @ py_join sep (y # ys)"

definition str_key_vars :: "key_vars \<Rightarrow> string" where
  "str_key_vars api_key_vars =
     (case api_key_vars of
        Single var \<Rightarrow> var
      | Multi vars \<Rightarrow> ''['' @ py_join '', '' (map (\<lambda>v. [CHR 0x27] @ v @ [CHR 0x27]) vars) @ '']'')"

definition key_error_lines :: "globals \<Rightarrow> string \<Rightarrow> string \<Rightarrow> key_vars \<Rightarrow> string \<Rightarrow> string list" where
  "key_error_lines g secondary_keys_file vendor api_key_vars key_source =
     [[CHR 0x0A] @ ''Error: API key for '' @ vendor @ '' is not set or could not be loaded.'',
      ''Source status: '' @ key_source]
     @ (if vendor = ''GOOGLE''
        then [''Please ensure it is defined either as an environment variable (GEMINI_API_KEY or GOOGLE_API_KEY)'',
              ''or within your API keys file (GEMINI_API_KEY or GOOGLE_API_KEY).'',
              ''Checked locations:'',
              ''  - Environment Variable: GEMINI_API_KEY'',
              ''  - Environment Variable: GOOGLE_API_KEY'']
        else [''Please ensure it is defined either as an environment variable (''
                @ str_key_vars api_key_vars @ '')'',
              ''or within your API keys file.'',
              ''Checked locations:'',
              ''  - Environment Variable: '' @ str_key_vars api_key_vars])
     @ [case environ g ''PRIMARY_KEYS_FILE'' of
          None \<Rightarrow> ''  - Primary Keys File (env): $PRIMARY_KEYS_FILE (not set)''
        | Some path \<Rightarrow>
            if path \<noteq> [] then ''  - Primary Keys File (env): $PRIMARY_KEYS_FILE -> '' @ path
            else ''  - Primary Keys File (env): $PRIMARY_KEYS_FILE (not set)'',
        ''  - Secondary Keys File (default): '' @ secondary_keys_file]"

definition check_api_key :: "string \<Rightarrow> globals \<Rightarrow> string \<Rightarrow> check_outcome" where
  "check_api_key secondary_keys_file g vendor =
     (case py_index (VENDORS g) vendor of
        None \<Rightarrow>
          Exits 1 [''Error: Unknown vendor '' @ [CHR 0x27] @ vendor @ [CHR 0x27]
                     @ '' passed to check_api_key.'']
      | Some vendor_index \<Rightarrow>
          (case py_getitem (VENDOR_API_KEY_VARS g) vendor_index of
             Inl e \<Rightarrow> Raises e
           | Inr api_key_vars \<Rightarrow>
               (case py_getitem (VENDOR_KEY_SOURCE g) vendor_index of
                  Inl e \<Rightarrow> Raises e
                | Inr key_source \<Rightarrow>
                    let api_key_set =
                          (case api_key_vars of
                             Multi vars \<Rightarrow> list_ex (\<lambda>var. truthy (environ g var)) vars
                           | Single var \<Rightarrow> truthy (environ g var))
                    in if \<not> api_key_set \<or> key_source = ''unset''
                       then Exits 1 (key_error_lines g secondary_keys_file vendor api_key_vars key_source)
                       else Passed)))"

section \<open>CommandBuilder\<close>

text \<open>\<^verbatim>\<open>_get_vendor_index\<close>: the position in \<^verbatim>\<open>VENDORS\<close>, or -1.\<close>

definition get_vendor_index :: "globals \<Rightarrow> string option \<Rightarrow> int" where
  "get_vendor_index g vendor_name =
     (case vendor_name of
        None \<Rightarrow> - 1
      | Some v \<Rightarrow> (case py_index (VENDORS g) v of None \<Rightarrow> - 1 | Some i \<Rightarrow> int i))"

fun first_set_value :: "(string \<rightharpoonup> string) \<Rightarrow> string list \<Rightarrow> string option" where
  "first_set_value env [] = None"
| "first_set_value env (var # vars) =
     (if truthy (env var) then env var else first_set_value env vars)"

definition get_api_key_value :: "globals \<Rightarrow> string \<Rightarrow> py_exc + string option" where
  "get_api_key_value g vendor =
     (case py_index (VENDORS g) vendor of
        None \<Rightarrow> Inr None
      | Some vendor_index \<Rightarrow>
          (case py_getitem (VENDOR_API_KEY_VARS g) vendor_index of
             Inl e \<Rightarrow> Inl e
           | Inr (Multi vars) \<Rightarrow> Inr (first_set_value (environ g) vars)
           | Inr (Single var) \<Rightarrow> Inr (environ g var)))"

text \<open>
  The \<^verbatim>\<open>if\<close>/\<^verbatim>\<open>elif\<close> chain on the vendor name that both builders contain: what is
  appended to the argument list for a key value. A vendor outside the four names appends
  nothing.
\<close>

definition api_key_flag :: "string \<Rightarrow> string \<Rightarrow> string list" where
  "api_key_flag vendor api_key_value =
     (if vendor = ''GOOGLE'' then [''--api-key'', ''google='' @ api_key_value]
      else if vendor = ''ANTHROPIC'' then [''--anthropic-api-key'', api_key_value]
      else if vendor = ''OPENAI'' then [''--openai-api-key'', api_key_value]
      else if vendor = ''DEEPSEEK'' then [''--deepseek-api-key'', api_key_value]
      else [])"

text \<open>
  \<^verbatim>\<open>_build_main_model_args\<close>. The vendor is a Python value that may be None (then
  \<^verbatim>\<open>_get_vendor_index\<close> gives -1).
\<close>

definition build_main_model_args :: "globals \<Rightarrow> string option \<Rightarrow> string \<Rightarrow> py_exc + string list" where
  "build_main_model_args g main_vendor main_model =
     (let args_list = [''--model'', main_model];
          vendor_index = get_vendor_index g main_vendor
      in case main_vendor of
           None \<Rightarrow> Inr args_list
         | Some vendor \<Rightarrow>
             if vendor_index \<noteq> - 1
             then (case py_getitem (VENDOR_KEY_SOURCE g) (nat vendor_index) of
                     Inl e \<Rightarrow> Inl e
                   | Inr key_source \<Rightarrow>
                       if key_source = ''file''
                       then (case py_getitem (VENDOR_API_KEY_VARS g) (nat vendor_index) of
                               Inl e \<Rightarrow> Inl e
                             | Inr api_key_vars \<Rightarrow>
                                 let api_key_var_name =
                                       (case api_key_vars of
                                          Multi vars \<Rightarrow>
                                            if truthy (environ g ''GEMINI_API_KEY'') then Some ''GEMINI_API_KEY''
                                            else if truthy (environ g ''GOOGLE_API_KEY'') then Some ''GOOGLE_API_KEY''
                                            else None
                                        | Single var \<Rightarrow> Some var)
                                 in (case api_key_var_name of
                                       None \<Rightarrow> Inr args_list
                                     | Some name \<Rightarrow>
                                         (case environ g name of
                                            None \<Rightarrow> Inr args_list
                                          | Some api_key_value \<Rightarrow>
                                              if name \<noteq> [] \<and> api_key_value \<noteq> []
                                              then Inr (args_list @ api_key_flag vendor api_key_value)
                                              else Inr args_list)))
                       else Inr args_list)
             else Inr args_list)"

text \<open>\<^verbatim>\<open>_build_architect_args\<close>; the editor vendor and model may be None.\<close>

definition build_architect_args ::
  "globals \<Rightarrow> string option \<Rightarrow> string option \<Rightarrow> string option \<Rightarrow> py_exc + string list" where
  "build_architect_args g editor_vendor editor_model main_vendor =
     (let args_list = [''--architect'']
      in case editor_model of
           None \<Rightarrow> Inr args_list
         | Some model \<Rightarrow>
             if model \<noteq> ''default''
             then (let args_list = args_list @ [''--editor-model'', model]
                   in if editor_vendor \<noteq> Some ''default'' \<and> editor_vendor \<noteq> main_vendor
                      then (let editor_vendor_index = get_vendor_index g editor_vendor
                            in case editor_vendor of
                                 None \<Rightarrow> Inr args_list
                               | Some vendor \<Rightarrow>
                                   if editor_vendor_index \<noteq> - 1
                                   then (case py_getitem (VENDOR_KEY_SOURCE g) (nat editor_vendor_index) of
                                           Inl e \<Rightarrow> Inl e
                                         | Inr editor_key_source \<Rightarrow>
                                             if editor_key_source = ''file''
                                             then (case get_api_key_value g vendor of
                                                     Inl e \<Rightarrow> Inl e
                                                   | Inr None \<Rightarrow> Inr args_list
                                                   | Inr (Some editor_api_key_value) \<Rightarrow>
                                                       if editor_api_key_value \<noteq> []
                                                       then Inr (args_list @ api_key_flag vendor editor_api_key_value)
                                                       else Inr args_list)
                                             else Inr args_list)
                                   else Inr args_list)
                      else Inr args_list)
             else Inr args_list)"

definition build_code_args :: "string list" where
  "build_code_args = [''--chat-mode'', ''code'']"

datatype mode = CodeMode | ArchitectMode

text \<open>
  The start of \<^verbatim>\<open>launch_aider\<close>: \<^verbatim>\<open>cmd_list\<close>, the base command without the edit
  format.
\<close>

definition base_cmd_list ::
  "globals \<Rightarrow> mode \<Rightarrow> string option \<Rightarrow> string \<Rightarrow> string option \<Rightarrow> string option
     \<Rightarrow> py_exc + string list" where
  "base_cmd_list g mode main_vendor main_model editor_vendor editor_model =
     (case build_main_model_args g main_vendor main_model of
        Inl e \<Rightarrow> Inl e
      | Inr main_args \<Rightarrow>
          (case mode of
             ArchitectMode \<Rightarrow>
               (case build_architect_args g editor_vendor editor_model main_vendor of
                  Inl e \<Rightarrow> Inl e
                | Inr architect_args \<Rightarrow> Inr ([''aider''] @ main_args @ architect_args))
           | CodeMode \<Rightarrow> Inr ([''aider''] @ main_args @ build_code_args)))"

text \<open>
  \<^verbatim>\<open>current_cmd_list\<close> of the confirmation loop: the edit-format flag is appended only
  for an explicit format.
\<close>

definition current_cmd_list :: "string list \<Rightarrow> string option \<Rightarrow> string list" where
  "current_cmd_list cmd_list selected_format =
     (case selected_format of
        None \<Rightarrow> cmd_list
      | Some format \<Rightarrow>
          if format \<noteq> ''default'' then cmd_list @ [''--edit-format'', format] else cmd_list)"

section \<open>SelectionWizard\<close>

subsection \<open>Menus\<close>

datatype entity_type = Vendor | Model

datatype role = Code | Architect | Editor

text \<open>
  \<^verbatim>\<open>[v for i, v in enumerate(VENDORS) if VENDOR_KEY_SOURCE[i] != "unset"]\<close>: the
  comprehension raises IndexError exactly when \<^verbatim>\<open>VENDOR_KEY_SOURCE\<close> is shorter than
  \<^verbatim>\<open>VENDORS\<close>.
\<close>

definition available_vendors :: "globals \<Rightarrow> py_exc + string list" where
  "available_vendors g =
     (if length (VENDOR_KEY_SOURCE g) < length (VENDORS g) then Inl IndexError
      else Inr (map fst (filter (\<lambda>(v, source). source \<noteq> ''unset'')
                                (zip (VENDORS g) (VENDOR_KEY_SOURCE g)))))"

text \<open>
  The \<^verbatim>\<open>entities\<close> of \<^verbatim>\<open>select_entity\<close>. \<open>Inr None\<close> is the early return for a model
  menu without vendor, which sets the result "invalid" and reads no input.
\<close>

definition menu_entities :: "globals \<Rightarrow> entity_type \<Rightarrow> string option \<Rightarrow> py_exc + string list option" where
  "menu_entities g entity_type vendor =
     (case entity_type of
        Vendor \<Rightarrow> (case available_vendors g of Inl e \<Rightarrow> Inl e | Inr vs \<Rightarrow> Inr (Some vs))
      | Model \<Rightarrow>
          (case vendor of
             None \<Rightarrow> Inr None
           | Some v \<Rightarrow> Inr (Some (case VENDOR_MODELS g v of None \<Rightarrow> [] | Some ms \<Rightarrow> ms))))"

text \<open>
  The option lines that \<^verbatim>\<open>select_entity\<close> prints: \<^verbatim>\<open>f"{i + 1}. {entity}"\<close> for every
  entity, the line "9. Use same VENDOR and MODEL as Architect" at the editor vendor menu,
  and "0. Back". Without entities only "0. Back" is printed.
\<close>

datatype menu_line = Numbered nat string | UseSameAsArchitect | Back

definition menu_lines :: "entity_type \<Rightarrow> role \<Rightarrow> string list \<Rightarrow> menu_line list" where
  "menu_lines entity_type role_label entities =
     (if length entities = 0 then [Back]
      else map (\<lambda>(i, entity). Numbered (i + 1) entity) (zip [0..<length entities] entities)
           @ (if entity_type = Vendor \<and> role_label = Editor then [UseSameAsArchitect] else [])
           @ [Back])"

text \<open>
  The decision of \<^verbatim>\<open>select_entity\<close> on the line read by its \<^verbatim>\<open>choice = input(...)\<close>.
  The result is the value left in \<^verbatim>\<open>SELECT_RESULT\<close> (None for back) and whether the
  function printed "Invalid choice." and waited for Enter before it returned. The
  ValueError of \<^verbatim>\<open>int(choice)\<close> is not caught: it leaves the function.
\<close>

definition select_entity ::
  "globals \<Rightarrow> entity_type \<Rightarrow> role \<Rightarrow> string option \<Rightarrow> string \<Rightarrow> py_exc + (string option \<times> bool)" where
  "select_entity g entity_type role_label vendor raw =
     (case menu_entities g entity_type vendor of
        Inl e \<Rightarrow> Inl e
      | Inr None \<Rightarrow> Inr (Some ''invalid'', False)
      | Inr (Some entities) \<Rightarrow>
          (let num_entities = length entities;
               choice = strip raw
           in if num_entities = 0
              then (if choice = [] \<or> choice = ''0'' then Inr (None, False)
                    else Inr (Some ''invalid'', True))
              else if choice = [] \<or> choice = ''0'' then Inr (None, False)
              else if entity_type = Vendor \<and> role_label = Editor \<and> choice = ''9''
                then Inr (Some ''default'', False)
              else if isdigit choice
                then (case py_int choice of
                        Inl e \<Rightarrow> Inl e
                      | Inr n \<Rightarrow>
                          (let choice_index = n - 1
                           in if 0 \<le> choice_index \<and> choice_index < int num_entities
                              then Inr (Some (entities ! nat choice_index), False)
                              else Inr (Some ''invalid'', True)))
              else Inr (Some ''invalid'', True)))"

text \<open>\<^verbatim>\<open>select_edit_format\<close>, in the same way.\<close>

definition mode_formats :: "globals \<Rightarrow> mode \<Rightarrow> string list" where
  "mode_formats g mode =
     (case mode of CodeMode \<Rightarrow> CODE_EDIT_FORMATS g | ArchitectMode \<Rightarrow> ARCHITECT_EDIT_FORMATS g)"

definition select_edit_format ::
  "globals \<Rightarrow> mode \<Rightarrow> string \<Rightarrow> py_exc + (string option \<times> bool)" where
  "select_edit_format g mode raw =
     (let formats = mode_formats g mode;
          num_options = length (''Default (Aider chooses)'' # formats);
          choice = strip raw
      in if choice = [] \<or> choice = ''0'' then Inr (None, False)
         else if isdigit choice
           then (case py_int choice of
                   Inl e \<Rightarrow> Inl e
                 | Inr n \<Rightarrow>
                     (let choice_index = n - 1
                      in if 0 \<le> choice_index \<and> choice_index < int num_options
                         then (if choice_index = 0 then Inr (Some ''default'', False)
                               else Inr (Some (formats ! nat (choice_index - 1)), False))
                         else Inr (Some ''invalid'', True)))
         else Inr (Some ''invalid'', True))"

subsection \<open>The wizard as a transition system\<close>

text \<open>
  The external collaborators. A call of \<^verbatim>\<open>subprocess.run\<close> gives a return code or
  raises (FileNotFoundError when there is no such executable, another exception
  otherwise): \<open>command_v_aider\<close> is the probe
  \<^verbatim>\<open>subprocess.run(["command", "-v", "aider"], capture_output=True)\<close>, whose executable
  \<^verbatim>\<open>command\<close> exists on some systems only, and \<open>subprocess_run\<close> the run of the
  assembled command. \<open>terminal_columns\<close> is \<^verbatim>\<open>os.get_terminal_size().columns\<close>, which
  raises OSError when the output is no terminal, and \<open>secondary_keys_file\<close> the
  expanded path \<^verbatim>\<open>~/.llm_api_keys\<close>.
\<close>

datatype run_result = Returncode int | Raised py_exc

record platform =
  command_v_aider :: run_result
  subprocess_run :: "string list \<Rightarrow> run_result"
  terminal_columns :: "py_exc + nat"
  secondary_keys_file :: string

text \<open>
  A control point is a call of \<^verbatim>\<open>input\<close>; the wizard stays there until the operator
  enters a line. \<open>ModeSelect\<close> is the prompt of \<^verbatim>\<open>display_mode_selection_menu\<close>,
  \<open>EntitySelect\<close> and \<open>FormatSelect\<close> are the prompts of \<^verbatim>\<open>select_entity\<close> and
  \<^verbatim>\<open>select_edit_format\<close>, \<open>LaunchConfirm\<close> is the prompt of the confirmation loop of
  \<^verbatim>\<open>launch_aider\<close>. The pauses are the calls that wait for Enter: after an invalid choice
  (\<open>ModePause\<close>, \<open>EntityPause\<close>, \<open>FormatPause\<close>, \<open>LaunchPause\<close>), and before
  \<^verbatim>\<open>launch_aider\<close> returns 1 for a missing or failed tool (\<open>LaunchAbort\<close>). \<open>Exited\<close>
  is the end of the process by \<^verbatim>\<open>sys.exit\<close>, \<open>Crashed\<close> its end by an exception.
  The operator is taken to answer every prompt: the end of the input stream is not a
  step of the model.
\<close>

datatype pc =
    ModeSelect
  | ModePause
  | EntitySelect entity_type role
  | EntityPause entity_type role
  | FormatSelect mode
  | FormatPause mode
  | LaunchAbort mode
  | LaunchConfirm mode
  | LaunchPause mode
  | Exited int
  | Crashed py_exc

text \<open>
  The local variables of \<^verbatim>\<open>run_code_mode\<close> and \<^verbatim>\<open>run_architect_mode\<close> (None until
  assigned), the \<^verbatim>\<open>cmd_list\<close> of the running \<^verbatim>\<open>launch_aider\<close>, and a log of the
  commands handed to \<^verbatim>\<open>subprocess.run\<close>.
\<close>

record wizard =
  pc :: pc
  main_vendor :: "string option"
  main_model :: "string option"
  editor_vendor :: "string option"
  editor_model :: "string option"
  selected_format :: "string option"
  cmd_list :: "string list"
  launched :: "string list list"

definition initial_wizard :: wizard where
  "initial_wizard =
     \<lparr> pc = ModeSelect, main_vendor = None, main_model = None, editor_vendor = None,
       editor_model = None, selected_format = None, cmd_list = [], launched = [] \<rparr>"

text \<open>
  \<^verbatim>\<open>run_code_mode\<close> or \<^verbatim>\<open>run_architect_mode\<close> returns: its locals are gone and the loop
  of \<^verbatim>\<open>main\<close> shows the mode menu again.
\<close>

definition return_to_main :: "wizard \<Rightarrow> wizard" where
  "return_to_main s =
     s\<lparr> pc := ModeSelect, main_vendor := None, main_model := None, editor_vendor := None,
        editor_model := None, selected_format := None, cmd_list := [] \<rparr>"

text \<open>The vendor argument of the \<^verbatim>\<open>select_entity\<close> call at a control point.\<close>

definition vendor_arg :: "wizard \<Rightarrow> entity_type \<Rightarrow> role \<Rightarrow> string option" where
  "vendor_arg s entity_type role_label =
     (case entity_type of
        Vendor \<Rightarrow> None
      | Model \<Rightarrow> (case role_label of Editor \<Rightarrow> editor_vendor s | _ \<Rightarrow> main_vendor s))"

text \<open>\<^verbatim>\<open>check_api_key(vendor)\<close> in the wizard, then the control point \<open>next\<close>.\<close>

definition checked :: "platform \<Rightarrow> globals \<Rightarrow> string \<Rightarrow> pc \<Rightarrow> wizard \<Rightarrow> wizard" where
  "checked p g vendor next s =
     (case check_api_key (secondary_keys_file p) g vendor of
        Passed \<Rightarrow> s\<lparr>pc := next\<rparr>
      | Exits status lines \<Rightarrow> s\<lparr>pc := Exited status\<rparr>
      | Raises e \<Rightarrow> s\<lparr>pc := Crashed e\<rparr>)"

text \<open>
  What the caller does with \<^verbatim>\<open>SELECT_RESULT\<close> after \<^verbatim>\<open>select_entity\<close> has returned:
  "invalid" prompts again, None returns to the main menu, anything else is stored and
  the next step follows.
\<close>

definition after_select ::
  "platform \<Rightarrow> globals \<Rightarrow> entity_type \<Rightarrow> role \<Rightarrow> string option \<Rightarrow> wizard \<Rightarrow> wizard" where
  "after_select p g entity_type role_label select_result s =
     (case select_result of
        None \<Rightarrow> return_to_main s
      | Some chosen \<Rightarrow>
          if chosen = ''invalid'' then s\<lparr>pc := EntitySelect entity_type role_label\<rparr>
          else (case (entity_type, role_label) of
                  (Vendor, Code) \<Rightarrow>
                    checked p g chosen (EntitySelect Model Code) (s\<lparr>main_vendor := Some chosen\<rparr>)
                | (Model, Code) \<Rightarrow>
                    s\<lparr>main_model := Some chosen, pc := FormatSelect CodeMode\<rparr>
                | (Vendor, Architect) \<Rightarrow>
                    checked p g chosen (EntitySelect Model Architect) (s\<lparr>main_vendor := Some chosen\<rparr>)
                | (Model, Architect) \<Rightarrow>
                    s\<lparr>main_model := Some chosen, pc := EntitySelect Vendor Editor\<rparr>
                | (Vendor, Editor) \<Rightarrow>
                    if chosen = ''default''
                    then s\<lparr>editor_vendor := Some chosen, editor_model := Some ''default'',
                           pc := FormatSelect ArchitectMode\<rparr>
                    else checked p g chosen (EntitySelect Model Editor) (s\<lparr>editor_vendor := Some chosen\<rparr>)
                | (Model, Editor) \<Rightarrow>
                    s\<lparr>editor_model := Some chosen, pc := FormatSelect ArchitectMode\<rparr>))"

text \<open>
  The top of the confirmation loop of \<^verbatim>\<open>launch_aider\<close>, up to its \<^verbatim>\<open>input\<close>: the
  screen is printed. \<^verbatim>\<open>subprocess.list2cmdline\<close> raises TypeError for a command that
  holds None, which is the case exactly for a main model of None; then
  \<^verbatim>\<open>os.get_terminal_size()\<close> is called, and \<^verbatim>\<open>textwrap.fill\<close> raises ValueError for
  the width 0. None of them is caught.
\<close>

definition launch_menu :: "platform \<Rightarrow> mode \<Rightarrow> wizard \<Rightarrow> wizard" where
  "launch_menu p mode s =
     (case main_model s of
        None \<Rightarrow> s\<lparr>pc := Crashed TypeError\<rparr>
      | Some model \<Rightarrow>
          (case terminal_columns p of
             Inl e \<Rightarrow> s\<lparr>pc := Crashed e\<rparr>
           | Inr terminal_width \<Rightarrow>
               if terminal_width = 0 then s\<lparr>pc := Crashed ValueError\<rparr>
               else s\<lparr>pc := LaunchConfirm mode\<rparr>))"

text \<open>
  \<^verbatim>\<open>launch_aider\<close> up to its first \<^verbatim>\<open>input\<close>: the base command is built, then the
  probe, which is outside any \<^verbatim>\<open>try\<close>, decides between the abort pause and the
  confirmation menu. The builders copy the main model into the list without reading it;
  for a main model of None (which no caller passes) the list holds None at that place,
  for which the empty string stands in \<open>cmd_list\<close> until the rendering raises.
\<close>

definition launch_aider_start :: "platform \<Rightarrow> globals \<Rightarrow> mode \<Rightarrow> wizard \<Rightarrow> wizard" where
  "launch_aider_start p g mode s =
     (case base_cmd_list g mode (main_vendor s) (case main_model s of None \<Rightarrow> [] | Some model \<Rightarrow> model)
             (editor_vendor s) (editor_model s) of
        Inl e \<Rightarrow> s\<lparr>pc := Crashed e\<rparr>
      | Inr cmd \<Rightarrow>
          (case command_v_aider p of
             Raised e \<Rightarrow> s\<lparr>pc := Crashed e\<rparr>
           | Returncode returncode \<Rightarrow>
               if returncode \<noteq> 0 then s\<lparr>cmd_list := cmd, pc := LaunchAbort mode\<rparr>
               else launch_menu p mode (s\<lparr>cmd_list := cmd\<rparr>)))"

text \<open>
  The confirmation menu: "1" (also the empty line) runs the command; a return code other
  than 0 and every exception (the call is inside a \<^verbatim>\<open>try\<close> with \<^verbatim>\<open>except Exception\<close>)
  lead to the abort pause and the status 1, the return code 0 to the status 0; "2" is the
  status 2, on which the caller selects the format again; "0" is the status 1. On the
  statuses 0 and 1 the caller returns to the main menu. After any other line and Enter
  the loop shows the screen again.
\<close>

definition launch_confirm :: "platform \<Rightarrow> mode \<Rightarrow> string \<Rightarrow> wizard \<Rightarrow> wizard" where
  "launch_confirm p mode raw s =
     (let confirm_choice = (if strip raw = [] then ''1'' else strip raw)
      in if confirm_choice = ''1''
         then (let cmd = current_cmd_list (cmd_list s) (selected_format s);
                   s1 = s\<lparr>launched := launched s @ [cmd]\<rparr>
               in case subprocess_run p cmd of
                    Returncode exit_status \<Rightarrow>
                      if exit_status \<noteq> 0 then s1\<lparr>pc := LaunchAbort mode\<rparr>
                      else return_to_main s1
                  | Raised e \<Rightarrow> s1\<lparr>pc := LaunchAbort mode\<rparr>)
         else if confirm_choice = ''2'' then s\<lparr>cmd_list := [], pc := FormatSelect mode\<rparr>
         else if confirm_choice = ''0'' then return_to_main s
         else s\<lparr>pc := LaunchPause mode\<rparr>)"

text \<open>One line of operator input at the current control point.\<close>

definition step :: "platform \<Rightarrow> globals \<Rightarrow> wizard \<Rightarrow> string \<Rightarrow> wizard" where
  "step p g s raw =
     (case pc s of
        ModeSelect \<Rightarrow>
          (let mode_choice = (if strip raw = [] then ''0'' else strip raw)
           in if mode_choice = ''1'' then s\<lparr>pc := EntitySelect Vendor Code\<rparr>
              else if mode_choice = ''2'' then s\<lparr>pc := EntitySelect Vendor Architect\<rparr>
              else if mode_choice = ''0'' then s\<lparr>pc := Exited 0\<rparr>
              else s\<lparr>pc := ModePause\<rparr>)
      | ModePause \<Rightarrow> s\<lparr>pc := ModeSelect\<rparr>
      | EntitySelect entity_type role_label \<Rightarrow>
          (case select_entity g entity_type role_label (vendor_arg s entity_type role_label) raw of
             Inl e \<Rightarrow> s\<lparr>pc := Crashed e\<rparr>
           | Inr (select_result, paused) \<Rightarrow>
               if paused then s\<lparr>pc := EntityPause entity_type role_label\<rparr>
               else after_select p g entity_type role_label select_result s)
      | EntityPause entity_type role_label \<Rightarrow> s\<lparr>pc := EntitySelect entity_type role_label\<rparr>
      | FormatSelect mode \<Rightarrow>
          (case select_edit_format g mode raw of
             Inl e \<Rightarrow> s\<lparr>pc := Crashed e\<rparr>
           | Inr (select_result, paused) \<Rightarrow>
               if paused then s\<lparr>pc := FormatPause mode\<rparr>
               else (case select_result of
                       None \<Rightarrow> return_to_main s
                     | Some chosen \<Rightarrow>
                         if chosen = ''invalid'' then s\<lparr>pc := FormatSelect mode\<rparr>
                         else launch_aider_start p g mode (s\<lparr>selected_format := Some chosen\<rparr>)))
      | FormatPause mode \<Rightarrow> s\<lparr>pc := FormatSelect mode\<rparr>
      | LaunchAbort mode \<Rightarrow> return_to_main s
      | LaunchConfirm mode \<Rightarrow> launch_confirm p mode raw s
      | LaunchPause mode \<Rightarrow> launch_menu p mode s
      | Exited status \<Rightarrow> s
      | Crashed e \<Rightarrow> s)"

text \<open>
  A session: the lines that the operator enters one after the other. The states of the
  wizard are the values of \<open>run p g initial_wizard ins\<close>.
\<close>

fun run :: "platform \<Rightarrow> globals \<Rightarrow> wizard \<Rightarrow> string list \<Rightarrow> wizard" where
  "run p g s [] = s"
| "run p g s (raw # rest) = run p g (step p g s raw) rest"

subsection \<open>Predicates on wizard states\<close>

text \<open>A vendor that was offered by the vendor menu and has passed \<^verbatim>\<open>check_api_key\<close>.\<close>

definition vendor_ok :: "platform \<Rightarrow> globals \<Rightarrow> string option \<Rightarrow> bool" where
  "vendor_ok p g v =
     (case v of
        None \<Rightarrow> False
      | Some vendor \<Rightarrow>
          (case available_vendors g of Inl e \<Rightarrow> False | Inr vs \<Rightarrow> vendor \<in> set vs) \<and>
          check_api_key (secondary_keys_file p) g vendor = Passed)"

text \<open>The control points behind the selection of the main vendor and of the editor vendor.\<close>

fun past_main_vendor :: "pc \<Rightarrow> bool" where
  "past_main_vendor ModeSelect = False"
| "past_main_vendor ModePause = False"
| "past_main_vendor (EntitySelect Vendor Code) = False"
| "past_main_vendor (EntitySelect Vendor Architect) = False"
| "past_main_vendor (EntityPause Vendor Code) = False"
| "past_main_vendor (EntityPause Vendor Architect) = False"
| "past_main_vendor (Exited status) = False"
| "past_main_vendor (Crashed e) = False"
| "past_main_vendor c = True"

fun past_editor_vendor :: "pc \<Rightarrow> bool" where
  "past_editor_vendor (EntitySelect Model Editor) = True"
| "past_editor_vendor (EntityPause Model Editor) = True"
| "past_editor_vendor c = False"

definition wizard_inv :: "platform \<Rightarrow> globals \<Rightarrow> wizard \<Rightarrow> bool" where
  "wizard_inv p g s =
     ((past_main_vendor (pc s) \<longrightarrow> vendor_ok p g (main_vendor s)) \<and>
      (past_editor_vendor (pc s) \<longrightarrow> vendor_ok p g (editor_vendor s)))"

text \<open>
  At the confirmation menu the \<^verbatim>\<open>cmd_list\<close> of \<^verbatim>\<open>launch_aider\<close> is the base command
  built from the selection.
\<close>

definition cmd_built :: "globals \<Rightarrow> mode \<Rightarrow> wizard \<Rightarrow> bool" where
  "cmd_built g mode s =
     (case main_model s of
        None \<Rightarrow> False
      | Some model \<Rightarrow>
          base_cmd_list g mode (main_vendor s) model (editor_vendor s) (editor_model s)
            = Inr (cmd_list s))"

definition cmd_inv :: "globals \<Rightarrow> wizard \<Rightarrow> bool" where
  "cmd_inv g s =
     (case pc s of
        LaunchConfirm mode \<Rightarrow> cmd_built g mode s
      | LaunchPause mode \<Rightarrow> cmd_built g mode s
      | _ \<Rightarrow> True)"

text \<open>
  The control points of the loop "Edit Format Selection and Launch Confirmation" of
  \<^verbatim>\<open>run_code_mode\<close> and \<^verbatim>\<open>run_architect_mode\<close>.
\<close>

fun in_format_loop :: "pc \<Rightarrow> bool" where
  "in_format_loop (FormatSelect mode) = True"
| "in_format_loop (FormatPause mode) = True"
| "in_format_loop (LaunchAbort mode) = True"
| "in_format_loop (LaunchConfirm mode) = True"
| "in_format_loop (LaunchPause mode) = True"
| "in_format_loop c = False"

text \<open>The steps at which the operator selects: a vendor or model menu, or the format menu.\<close>

fun selection_step :: "pc \<Rightarrow> bool" where
  "selection_step (EntitySelect entity_type role_label) = True"
| "selection_step (FormatSelect mode) = True"
| "selection_step c = False"

text \<open>
  Two values of the globals with the same vendors, the same variable names and as many
  sources: the loaders change nothing else of the parallel lists.
\<close>

definition same_shape :: "globals \<Rightarrow> globals \<Rightarrow> bool" where
  "same_shape g g' \<longleftrightarrow>
     VENDORS g' = VENDORS g \<and> VENDOR_API_KEY_VARS g' = VENDOR_API_KEY_VARS g \<and>
     length (VENDOR_KEY_SOURCE g') = length (VENDOR_KEY_SOURCE g)"

section \<open>Example sessions\<close>

text \<open>
  A configuration with five vendors. ANTHROPIC has its key in the environment; the
  credentials file defines the keys of GOOGLE, OPENAI and MISTRAL; DEEPSEEK has none.
\<close>

definition demo_config :: config where
  "demo_config =
     \<lparr> cfg_vendors = [''GOOGLE'', ''OPENAI'', ''MISTRAL'', ''ANTHROPIC'', ''DEEPSEEK''],
       cfg_models = [''GOOGLE'' \<mapsto> [''gemini-2.5-pro''],
                     ''OPENAI'' \<mapsto> [''gpt-4o'', ''gpt-4-turbo''],
                     ''MISTRAL'' \<mapsto> [''mistral-large''],
                     ''ANTHROPIC'' \<mapsto> [''claude-3-5-haiku-20241022''],
                     ''DEEPSEEK'' \<mapsto> [''deepseek-chat'']],
       cfg_code_formats = [''whole'', ''diff''],
       cfg_architect_formats = [''editor-whole'', ''editor-diff''] \<rparr>"

definition demo_environ :: "string \<rightharpoonup> string" where
  "demo_environ = [''ANTHROPIC_API_KEY'' \<mapsto> ''sk-ant-env'']"

definition demo_keys_file :: string where
  "demo_keys_file = ''/home/op/.llm_api_keys''"

definition demo_files :: "string \<rightharpoonup> string list" where
  "demo_files =
     [demo_keys_file \<mapsto>
        [''# LLM API Keys Configuration'',
         ''GEMINI_API_KEY='' @ [CHR 0x22] @ ''AIza-file'' @ [CHR 0x22],
         ''OPENAI_API_KEY='' @ [CHR 0x27] @ ''sk-file'' @ [CHR 0x27],
         ''MISTRAL_API_KEY=mk-file'']]"

text \<open>The globals after \<^verbatim>\<open>initialize_configuration\<close> and \<^verbatim>\<open>load_api_keys\<close> on this input.\<close>

definition demo_globals :: globals where
  "demo_globals =
     \<lparr> VENDORS = [''GOOGLE'', ''OPENAI'', ''MISTRAL'', ''ANTHROPIC'', ''DEEPSEEK''],
       VENDOR_MODELS = cfg_models demo_config,
       CODE_EDIT_FORMATS = [''whole'', ''diff''],
       ARCHITECT_EDIT_FORMATS = [''editor-whole'', ''editor-diff''],
       VENDOR_API_KEY_VARS = [Multi [''GEMINI_API_KEY'', ''GOOGLE_API_KEY''], Single ''OPENAI_API_KEY'',
                              Single ''MISTRAL_API_KEY'', Single ''ANTHROPIC_API_KEY'',
                              Single ''DEEPSEEK_API_KEY''],
       VENDOR_KEY_SOURCE = [''file'', ''file'', ''file'', ''env'', ''unset''],
       environ = [''ANTHROPIC_API_KEY'' \<mapsto> ''sk-ant-env'', ''GEMINI_API_KEY'' \<mapsto> ''AIza-file'',
                  ''OPENAI_API_KEY'' \<mapsto> ''sk-file'', ''MISTRAL_API_KEY'' \<mapsto> ''mk-file''] \<rparr>"

text \<open>
  The probe finds the tool on the path, every run of the tool ends with the return code
  2, and the terminal has 80 columns.
\<close>

definition demo_platform :: platform where
  "demo_platform =
     \<lparr> command_v_aider = Returncode 0, subprocess_run = (\<lambda>cmd. Returncode 2),
       terminal_columns = Inr 80, secondary_keys_file = demo_keys_file \<rparr>"

text \<open>The same vendors without any key.\<close>

definition no_keys_globals :: globals where
  "no_keys_globals =
     demo_globals\<lparr>VENDOR_KEY_SOURCE := replicate 5 ''unset'', environ := Map.empty\<rparr>"

text \<open>Nine vendors, each with its key in the environment.\<close>

definition nine_vendors :: "string list" where
  "nine_vendors = [''V1'', ''V2'', ''V3'', ''V4'', ''V5'', ''V6'', ''V7'', ''V8'', ''V9'']"

definition nine_globals :: globals where
  "nine_globals =
     \<lparr> VENDORS = nine_vendors,
       VENDOR_MODELS = map_of (map (\<lambda>v. (v, [v @ ''-large''])) nine_vendors),
       CODE_EDIT_FORMATS = [''whole''],
       ARCHITECT_EDIT_FORMATS = [''editor-whole''],
       VENDOR_API_KEY_VARS = map (\<lambda>v. Single (v @ ''_API_KEY'')) nine_vendors,
       VENDOR_KEY_SOURCE = replicate 9 ''env'',
       environ = map_of (map (\<lambda>v. (v @ ''_API_KEY'', ''sk-'' @ v)) nine_vendors) \<rparr>"

text \<open>GOOGLE configured, with only the legacy variable GOOGLE_API_KEY in the environment.\<close>

definition legacy_globals :: globals where
  "legacy_globals =
     initialize_configuration
       \<lparr> cfg_vendors = [''OPENAI'', ''GOOGLE''], cfg_models = Map.empty,
         cfg_code_formats = [''whole''], cfg_architect_formats = [''editor-whole''] \<rparr>
       [''GOOGLE_API_KEY'' \<mapsto> ''AIza-legacy'']"

text \<open>
  OPENAI with a key in the environment and a credentials file that defines the same
  variable with another value.
\<close>

definition overwrite_config :: config where
  "overwrite_config =
     \<lparr> cfg_vendors = [''OPENAI''], cfg_models = [''OPENAI'' \<mapsto> [''gpt-4o'']],
       cfg_code_formats = [''whole''], cfg_architect_formats = [''editor-whole''] \<rparr>"

definition overwrite_environ :: "string \<rightharpoonup> string" where
  "overwrite_environ = [''OPENAI_API_KEY'' \<mapsto> ''sk-from-env'']"

definition overwrite_files :: "string \<rightharpoonup> string list" where
  "overwrite_files =
     [demo_keys_file \<mapsto> [''OPENAI_API_KEY='' @ [CHR 0x22] @ ''sk-from-file'' @ [CHR 0x22]]]"

text \<open>
  A configuration that lists the vendor name GEMINI twice, around GOOGLE, with only the
  legacy variable GOOGLE_API_KEY in the environment and no credentials file, and the
  globals after start-up on this input: the first GEMINI is looked at before the pass
  copies the legacy value to GEMINI_API_KEY, the second one after it.
\<close>

definition dup_config :: config where
  "dup_config =
     \<lparr> cfg_vendors = [''GEMINI'', ''GOOGLE'', ''GEMINI''],
       cfg_models = [''GEMINI'' \<mapsto> [''gemini-2.5-flash''], ''GOOGLE'' \<mapsto> [''gemini-2.5-pro'']],
       cfg_code_formats = [''whole''], cfg_architect_formats = [''editor-whole''] \<rparr>"

definition dup_environ :: "string \<rightharpoonup> string" where
  "dup_environ = [''GOOGLE_API_KEY'' \<mapsto> ''AIza-legacy'']"

definition dup_globals :: globals where
  "dup_globals =
     \<lparr> VENDORS = [''GEMINI'', ''GOOGLE'', ''GEMINI''],
       VENDOR_MODELS = [''GEMINI'' \<mapsto> [''gemini-2.5-flash''], ''GOOGLE'' \<mapsto> [''gemini-2.5-pro'']],
       CODE_EDIT_FORMATS = [''whole''],
       ARCHITECT_EDIT_FORMATS = [''editor-whole''],
       VENDOR_API_KEY_VARS = [Single ''GEMINI_API_KEY'', Multi [''GEMINI_API_KEY'', ''GOOGLE_API_KEY''],
                              Single ''GEMINI_API_KEY''],
       VENDOR_KEY_SOURCE = [''unset'', ''env'', ''env''],
       environ = [''GOOGLE_API_KEY'' \<mapsto> ''AIza-legacy'', ''GEMINI_API_KEY'' \<mapsto> ''AIza-legacy''] \<rparr>"

text \<open>
  OPENAI without a key in the environment and a credentials file that defines its
  variable with an empty value, and the globals after start-up on this input.
\<close>

definition empty_key_files :: "string \<rightharpoonup> string list" where
  "empty_key_files = [demo_keys_file \<mapsto> [''OPENAI_API_KEY='' @ [CHR 0x22, CHR 0x22]]]"

definition empty_key_globals :: globals where
  "empty_key_globals =
     \<lparr> VENDORS = [''OPENAI''],
       VENDOR_MODELS = [''OPENAI'' \<mapsto> [''gpt-4o'']],
       CODE_EDIT_FORMATS = [''whole''],
       ARCHITECT_EDIT_FORMATS = [''editor-whole''],
       VENDOR_API_KEY_VARS = [Single ''OPENAI_API_KEY''],
       VENDOR_KEY_SOURCE = [''file''],
       environ = [''OPENAI_API_KEY'' \<mapsto> []] \<rparr>"

section \<open>Auxiliary facts\<close>

subsection \<open>Lists and variable names\<close>

lemma py_index_Some: "py_index xs x = Some i \<Longrightarrow> i < length xs \<and> xs ! i = x"
proof (induction xs arbitrary: i)
  case Nil
  then show ?case by simp
next
  case (Cons y ys)
  show ?case
  proof (cases "y = x")
    case True
    with Cons.prems show ?thesis by simp
  next
    case False
    with Cons.prems obtain j where j: "py_index ys x = Some j" "i = Suc j"
      by auto
    from Cons.IH [OF j(1)] j(2) show ?thesis by simp
  qed
qed

lemma truthy_Some: "truthy v \<longleftrightarrow> (\<exists>s. v = Some s \<and> s \<noteq> [])"
  by (cases v) (simp_all add: truthy_def)

lemma vendor_key_vars_length: "length (vendor_key_vars vs) = length vs"
  by (simp add: vendor_key_vars_def Let_def split: option.splits)

lemma vendor_key_vars_google:
  "py_index vs ''GOOGLE'' = Some i \<Longrightarrow>
   vendor_key_vars vs ! i = Multi [''GEMINI_API_KEY'', ''GOOGLE_API_KEY'']"
  using py_index_Some [of vs "''GOOGLE''" i] by (simp add: vendor_key_vars_def Let_def)

lemma vendor_key_vars_other:
  "j < length vs \<Longrightarrow> py_index vs ''GOOGLE'' \<noteq> Some j \<Longrightarrow>
   vendor_key_vars vs ! j = Single (vs ! j @ ''_API_KEY'')"
  by (auto simp: vendor_key_vars_def Let_def split: option.splits)

text \<open>The entry of a configured vendor: the two names for GOOGLE, one name otherwise.\<close>

lemma key_vars_of_vendor:
  assumes "wf_globals g" "py_index (VENDORS g) vendor = Some i"
  shows "py_getitem (VENDOR_API_KEY_VARS g) i =
           Inr (if vendor = ''GOOGLE'' then Multi [''GEMINI_API_KEY'', ''GOOGLE_API_KEY'']
                else Single (vendor @ ''_API_KEY''))"
proof -
  from py_index_Some [OF assms(2)] have i: "i < length (VENDORS g)" "VENDORS g ! i = vendor"
    by simp_all
  show ?thesis
  proof (cases "vendor = ''GOOGLE''")
    case True
    with assms i show ?thesis
      by (simp add: wf_globals_def py_getitem_def vendor_key_vars_length vendor_key_vars_google)
  next
    case False
    have "py_index (VENDORS g) ''GOOGLE'' \<noteq> Some i"
    proof
      assume "py_index (VENDORS g) ''GOOGLE'' = Some i"
      from py_index_Some [OF this] i(2) False show False by simp
    qed
    with assms i False show ?thesis
      by (simp add: wf_globals_def py_getitem_def vendor_key_vars_length vendor_key_vars_other)
  qed
qed

lemma upt_split_at: "i < n \<Longrightarrow> [0..<n] = [0..<i] @ i # [Suc i..<n]"
proof -
  assume "i < n"
  then have "[0..<n] = [0..<i] @ [i..<n]"
    using upt_add_eq_append [of 0 i "n - i"] by simp
  also from \<open>i < n\<close> have "[i..<n] = i # [Suc i..<n]"
    by (rule upt_conv_Cons)
  finally show ?thesis .
qed

subsection \<open>The loaders\<close>

lemma load_env_loop_append:
  "load_env_loop (xs @ ys) af g =
     (case load_env_loop xs af g of Inl e \<Rightarrow> Inl e | Inr (af', g') \<Rightarrow> load_env_loop ys af' g')"
  by (induction xs arbitrary: af g) (auto split: sum.splits)

lemma load_env_vendor_single:
  assumes "i < length (VENDOR_KEY_SOURCE g)" and "i < length (VENDOR_API_KEY_VARS g)"
    and "VENDOR_API_KEY_VARS g ! i = Single v"
  shows "\<exists>found s. load_env_vendor g i =
           Inr (found, g\<lparr>VENDOR_KEY_SOURCE := (VENDOR_KEY_SOURCE g)[i := s]\<rparr>)"
  using assms by (auto simp: load_env_vendor_def py_getitem_def py_setitem_def)

text \<open>
  Over vendors with a single variable name the environment pass only writes their own
  entries of \<^verbatim>\<open>VENDOR_KEY_SOURCE\<close>.
\<close>

lemma load_env_loop_singles:
  assumes "\<forall>j\<in>set js. j < length (VENDOR_KEY_SOURCE g) \<and> j < length (VENDOR_API_KEY_VARS g) \<and>
             (\<exists>v. VENDOR_API_KEY_VARS g ! j = Single v)"
  shows "\<exists>af' src. load_env_loop js af g = Inr (af', g\<lparr>VENDOR_KEY_SOURCE := src\<rparr>) \<and>
           length src = length (VENDOR_KEY_SOURCE g) \<and>
           (\<forall>k. k \<notin> set js \<longrightarrow> src ! k = VENDOR_KEY_SOURCE g ! k)"
  using assms
proof (induction js arbitrary: af g)
  case Nil
  show ?case by (rule exI [of _ af], rule exI [of _ "VENDOR_KEY_SOURCE g"]) simp
next
  case (Cons j js)
  from Cons.prems obtain v where j: "j < length (VENDOR_KEY_SOURCE g)"
    "j < length (VENDOR_API_KEY_VARS g)" "VENDOR_API_KEY_VARS g ! j = Single v"
    by auto
  from load_env_vendor_single [OF j] obtain found s where
    first: "load_env_vendor g j = Inr (found, g\<lparr>VENDOR_KEY_SOURCE := (VENDOR_KEY_SOURCE g)[j := s]\<rparr>)"
    by blast
  let ?g1 = "g\<lparr>VENDOR_KEY_SOURCE := (VENDOR_KEY_SOURCE g)[j := s]\<rparr>"
  from Cons.prems have "\<forall>k\<in>set js. k < length (VENDOR_KEY_SOURCE ?g1) \<and>
      k < length (VENDOR_API_KEY_VARS ?g1) \<and> (\<exists>v. VENDOR_API_KEY_VARS ?g1 ! k = Single v)"
    by simp
  from Cons.IH [OF this, of "af \<and> found"] obtain af' src where
    rest: "load_env_loop js (af \<and> found) ?g1 = Inr (af', ?g1\<lparr>VENDOR_KEY_SOURCE := src\<rparr>)"
      "length src = length (VENDOR_KEY_SOURCE ?g1)"
      "\<forall>k. k \<notin> set js \<longrightarrow> src ! k = VENDOR_KEY_SOURCE ?g1 ! k"
    by blast
  have "load_env_loop (j # js) af g = Inr (af', g\<lparr>VENDOR_KEY_SOURCE := src\<rparr>)"
    using first rest(1) by simp
  moreover have "length src = length (VENDOR_KEY_SOURCE g)"
    using rest(2) by simp
  moreover have "\<forall>k. k \<notin> set (j # js) \<longrightarrow> src ! k = VENDOR_KEY_SOURCE g ! k"
    using rest(3) by simp
  ultimately show ?case by blast
qed

lemma load_env_vendor_shape:
  "load_env_vendor g i = Inr (found, g') \<Longrightarrow> same_shape g g'"
  by (auto simp: load_env_vendor_def py_getitem_def py_setitem_def same_shape_def
      split: sum.splits key_vars.splits option.splits if_splits)

lemma load_env_loop_shape:
  "load_env_loop js af g = Inr (af', g') \<Longrightarrow> same_shape g g'"
proof (induction js arbitrary: af g)
  case Nil
  then show ?case by (simp add: same_shape_def)
next
  case (Cons j js)
  from Cons.prems obtain found g1 where
    s1: "load_env_vendor g j = Inr (found, g1)"
    and s2: "load_env_loop js (af \<and> found) g1 = Inr (af', g')"
    by (auto split: sum.splits)
  from load_env_vendor_shape [OF s1] Cons.IH [OF s2] show ?case
    by (simp add: same_shape_def)
qed

lemma load_file_line_shape:
  "load_file_line g raw = (ok, g') \<Longrightarrow> same_shape g g'"
  by (auto simp: load_file_line_def Let_def same_shape_def
      split: option.splits sum.splits if_splits prod.splits)

lemma load_file_lines_shape: "same_shape g (load_file_lines g lines)"
proof (induction lines arbitrary: g)
  case Nil
  show ?case by (simp add: same_shape_def)
next
  case (Cons l ls)
  obtain ok g1 where l: "load_file_line g l = (ok, g1)"
    by (cases "load_file_line g l")
  from load_file_line_shape [OF l] Cons.IH [of g1] l show ?case
    by (cases ok) (simp_all add: same_shape_def)
qed

text \<open>The globals with which the wizard starts are well-formed.\<close>

lemma wf_globals_startup:
  assumes "load_api_keys fs secondary_file (initialize_configuration cfg env) = Inr g"
  shows "wf_globals g"
proof -
  let ?g0 = "initialize_configuration cfg env"
  have wf0: "wf_globals ?g0"
    by (simp add: wf_globals_def initialize_configuration_def)
  from assms obtain af g1 where e: "load_keys_from_env ?g0 = Inr (af, g1)"
    and f: "g = g1 \<or> (\<exists>path. g = load_keys_from_file fs g1 path)"
    by (fastforce simp: load_api_keys_def split: sum.splits option.splits)
  from e have s1: "same_shape ?g0 g1"
    by (auto simp: load_keys_from_env_def dest: load_env_loop_shape)
  have "same_shape g1 (load_keys_from_file fs g1 path)" for path
    using load_file_lines_shape [of g1]
    by (simp add: load_keys_from_file_def same_shape_def split: option.splits)
  with f have "same_shape g1 g"
    by (auto simp: same_shape_def)
  with s1 wf0 show ?thesis
    by (simp add: same_shape_def wf_globals_def)
qed

lemma demo_startup:
  "load_api_keys demo_files demo_keys_file (initialize_configuration demo_config demo_environ)
     = Inr demo_globals"
  by (simp add: load_api_keys_def load_keys_from_env_def initialize_configuration_def
      demo_config_def demo_environ_def demo_files_def demo_globals_def demo_keys_file_def
      vendor_key_vars_def load_env_vendor_def py_getitem_def py_setitem_def truthy_def
      find_keys_file_def load_keys_from_file_def load_file_line_def strip_def isspace_def
      match_assignment_def is_word_char_def is_quote_def Let_def upt_rec)

lemma dup_startup:
  "load_api_keys Map.empty demo_keys_file (initialize_configuration dup_config dup_environ)
     = Inr dup_globals"
  by (simp add: load_api_keys_def load_keys_from_env_def initialize_configuration_def
      dup_config_def dup_environ_def dup_globals_def vendor_key_vars_def load_env_vendor_def
      py_getitem_def py_setitem_def truthy_def find_keys_file_def Let_def upt_rec)

lemma demo_wf: "wf_globals demo_globals"
  using demo_startup by (rule wf_globals_startup)

subsection \<open>The builders\<close>

lemma check_passed_source:
  assumes "check_api_key f g vendor = Passed"
  shows "\<exists>i vars source. py_index (VENDORS g) vendor = Some i \<and>
           py_getitem (VENDOR_API_KEY_VARS g) i = Inr vars \<and>
           py_getitem (VENDOR_KEY_SOURCE g) i = Inr source \<and> source \<noteq> ''unset'' \<and>
           (case vars of Multi vs \<Rightarrow> list_ex (\<lambda>var. truthy (environ g var)) vs
                       | Single var \<Rightarrow> truthy (environ g var))"
  using assms
  by (auto simp: check_api_key_def Let_def split: option.splits sum.splits if_splits)

lemma main_args_not_file:
  assumes "py_index (VENDORS g) vendor = Some i"
    and "py_getitem (VENDOR_KEY_SOURCE g) i = Inr source" and "source \<noteq> ''file''"
  shows "build_main_model_args g (Some vendor) model = Inr [''--model'', model]"
  using assms by (simp add: build_main_model_args_def get_vendor_index_def)

lemma main_args_file_single:
  assumes "py_index (VENDORS g) vendor = Some i"
    and "py_getitem (VENDOR_KEY_SOURCE g) i = Inr ''file''"
    and "py_getitem (VENDOR_API_KEY_VARS g) i = Inr (Single var)"
    and "var \<noteq> []" and "environ g var = Some key" and "key \<noteq> []"
  shows "build_main_model_args g (Some vendor) model =
           Inr ([''--model'', model] @ api_key_flag vendor key)"
  using assms by (simp add: build_main_model_args_def get_vendor_index_def)

lemma main_args_file_multi:
  assumes "py_index (VENDORS g) vendor = Some i"
    and "py_getitem (VENDOR_KEY_SOURCE g) i = Inr ''file''"
    and "py_getitem (VENDOR_API_KEY_VARS g) i = Inr (Multi [''GEMINI_API_KEY'', ''GOOGLE_API_KEY''])"
    and "first_set_value (environ g) [''GEMINI_API_KEY'', ''GOOGLE_API_KEY''] = Some key"
    and "key \<noteq> []"
  shows "build_main_model_args g (Some vendor) model =
           Inr ([''--model'', model] @ api_key_flag vendor key)"
proof (cases "truthy (environ g ''GEMINI_API_KEY'')")
  case True
  with assms show ?thesis
    by (simp add: build_main_model_args_def get_vendor_index_def)
next
  case False
  with assms(4,5) have "truthy (environ g ''GOOGLE_API_KEY'')"
    by (simp add: truthy_Some split: if_splits)
  with False assms show ?thesis
    by (simp add: build_main_model_args_def get_vendor_index_def)
qed

lemma first_set_value_truthy:
  "list_ex (\<lambda>var. truthy (env var)) vars \<Longrightarrow>
   \<exists>key. first_set_value env vars = Some key \<and> key \<noteq> []"
  by (induction vars) (auto simp: truthy_Some)

subsection \<open>The menus\<close>

lemma select_entity_back:
  assumes "strip raw = [] \<or> strip raw = ''0''"
    and "menu_entities g entity_type vendor = Inr (Some entities)"
  shows "select_entity g entity_type role_label vendor raw = Inr (None, False)"
  using assms by (auto simp: select_entity_def Let_def)

lemma select_edit_format_back:
  assumes "strip raw = [] \<or> strip raw = ''0''"
  shows "select_edit_format g mode raw = Inr (None, False)"
  using assms by (auto simp: select_edit_format_def Let_def)

lemma select_entity_vendor_result:
  assumes "select_entity g Vendor role_label vendor raw = Inr (Some chosen, False)"
  shows "(role_label = Editor \<and> chosen = ''default'') \<or>
         (\<exists>vs. available_vendors g = Inr vs \<and> chosen \<in> set vs)"
  using assms
  by (auto simp: select_entity_def menu_entities_def Let_def split: sum.splits if_splits)

lemma select_entity_no_vendors:
  assumes "available_vendors g = Inr []"
  shows "select_entity g Vendor role_label v raw =
           Inr (if strip raw = [] \<or> strip raw = ''0'' then (None, False) else (Some ''invalid'', True))"
  using assms by (simp add: select_entity_def menu_entities_def)

lemma select_entity_vendor_cases:
  assumes "available_vendors g = Inr vs"
  shows "(select_entity g Vendor role_label v raw = Inl ValueError \<and> vs \<noteq> [] \<and>
          isdigit (strip raw) \<and> py_int (strip raw) = Inl ValueError) \<or>
         (\<exists>r paused. select_entity g Vendor role_label v raw = Inr (r, paused) \<and>
            (r = None \<or> r = Some ''invalid'' \<or>
             (role_label = Editor \<and> vs \<noteq> [] \<and> r = Some ''default'') \<or>
             (\<exists>vendor\<in>set vs. r = Some vendor)))"
proof (cases "py_int (strip raw)")
  case (Inl e)
  then have "e = ValueError"
    by (simp add: py_int_def split: if_splits)
  with Inl assms show ?thesis
    by (auto simp: select_entity_def menu_entities_def Let_def)
next
  case (Inr n)
  with assms show ?thesis
    by (auto simp: select_entity_def menu_entities_def Let_def)
qed

lemma available_vendors_set:
  assumes "length (VENDOR_KEY_SOURCE g) = length (VENDORS g)"
  shows "\<exists>vs. available_vendors g = Inr vs \<and>
           set vs = {VENDORS g ! i | i. i < length (VENDORS g) \<and> VENDOR_KEY_SOURCE g ! i \<noteq> ''unset''}"
  using assms by (force simp: available_vendors_def set_zip)

lemma available_vendors_unset:
  assumes "distinct (VENDORS g)" "available_vendors g = Inr vs"
    and "i < length (VENDORS g)" "VENDOR_KEY_SOURCE g ! i = ''unset''"
  shows "VENDORS g ! i \<notin> set vs"
proof
  assume "VENDORS g ! i \<in> set vs"
  with assms(2) obtain j where j: "j < length (VENDORS g)" "j < length (VENDOR_KEY_SOURCE g)"
    "VENDORS g ! j = VENDORS g ! i" "VENDOR_KEY_SOURCE g ! j \<noteq> ''unset''"
    by (auto simp: available_vendors_def set_zip split: if_splits)
  from assms(1,3) j(1,3) have "j = i"
    by (simp add: nth_eq_iff_index_eq)
  with j(4) assms(4) show False by simp
qed

lemma py_int_9: "py_int ''9'' = Inr 9"
  by (simp add: py_int_def digit_val_def isdecimal_char_def int_max_str_digits_def)

lemma isdigit_9: "isdigit ''9''"
  by (simp add: isdigit_def isdigit_char_def isdecimal_char_def)

lemma select_entity_editor_9:
  assumes "strip raw = ''9''" "available_vendors g = Inr vs" "vs \<noteq> []"
  shows "select_entity g Vendor Editor v raw = Inr (Some ''default'', False)"
  using assms by (simp add: select_entity_def menu_entities_def)

lemma select_entity_main_9:
  assumes "strip raw = ''9''" "available_vendors g = Inr vs" "9 \<le> length vs"
    and "role_label \<noteq> Editor"
  shows "select_entity g Vendor role_label v raw = Inr (Some (vs ! 8), False)"
  using assms by (auto simp: select_entity_def menu_entities_def Let_def py_int_9 isdigit_9)

subsection \<open>Steps of the wizard\<close>

lemma pc_return_to_main: "pc (return_to_main s) = ModeSelect"
  by (simp add: return_to_main_def)

lemma step_format_back:
  assumes "pc s = FormatSelect mode" "strip raw = [] \<or> strip raw = ''0''"
  shows "step p g s raw = return_to_main s"
  using assms by (simp add: step_def select_edit_format_back)

lemma step_entity_back:
  assumes "pc s = EntitySelect entity_type role_label" "strip raw = [] \<or> strip raw = ''0''"
    and "menu_entities g entity_type (vendor_arg s entity_type role_label) = Inr (Some entities)"
  shows "step p g s raw = return_to_main s"
  using assms by (simp add: step_def select_entity_back after_select_def)

lemma chosen_vendor_ok:
  assumes "select_entity g Vendor role_label vendor raw = Inr (Some chosen, False)"
    and "role_label = Editor \<longrightarrow> chosen \<noteq> ''default''"
    and "check_api_key (secondary_keys_file p) g chosen = Passed"
  shows "vendor_ok p g (Some chosen)"
  using select_entity_vendor_result [OF assms(1)] assms(2,3)
  by (auto simp: vendor_ok_def)

lemma wizard_inv_after_select:
  assumes "wizard_inv p g s" "pc s = EntitySelect entity_type role_label"
    and "select_entity g entity_type role_label vendor raw = Inr (select_result, False)"
  shows "wizard_inv p g (after_select p g entity_type role_label select_result s)"
proof (cases select_result)
  case None
  then show ?thesis by (simp add: after_select_def return_to_main_def wizard_inv_def)
next
  case (Some chosen)
  show ?thesis
  proof (cases "chosen = ''invalid''")
    case True
    with Some assms(1,2) show ?thesis by (simp add: after_select_def wizard_inv_def)
  next
    case False
    show ?thesis
    proof (cases entity_type)
      case Vendor
      have ok: "vendor_ok p g (Some chosen)"
        if "role_label = Editor \<longrightarrow> chosen \<noteq> ''default''"
          and "check_api_key (secondary_keys_file p) g chosen = Passed"
        using chosen_vendor_ok [of g role_label vendor raw chosen p] assms(3) Vendor Some that
        by simp
      from assms(1,2) Some False Vendor ok show ?thesis
        by (cases role_label)
           (auto simp: after_select_def checked_def wizard_inv_def split: check_outcome.splits)
    next
      case Model
      with assms(1,2) Some False show ?thesis
        by (cases role_label) (auto simp: after_select_def wizard_inv_def)
    qed
  qed
qed

text \<open>Every line of input keeps the invariant.\<close>

lemma wizard_inv_step:
  assumes "wizard_inv p g s"
  shows "wizard_inv p g (step p g s raw)"
proof (cases "pc s")
  case ModeSelect
  then show ?thesis by (simp add: step_def wizard_inv_def Let_def)
next
  case ModePause
  then show ?thesis by (simp add: step_def wizard_inv_def)
next
  case (EntitySelect entity_type role_label)
  show ?thesis
  proof (cases "select_entity g entity_type role_label (vendor_arg s entity_type role_label) raw")
    case (Inl e)
    with EntitySelect show ?thesis by (simp add: step_def wizard_inv_def)
  next
    case (Inr r)
    obtain select_result paused where r: "r = (select_result, paused)" by (cases r)
    show ?thesis
    proof (cases paused)
      case True
      with assms EntitySelect Inr r show ?thesis
        by (cases entity_type; cases role_label) (simp_all add: step_def wizard_inv_def)
    next
      case False
      with Inr r have "select_entity g entity_type role_label (vendor_arg s entity_type role_label) raw
          = Inr (select_result, False)"
        by simp
      from wizard_inv_after_select [OF assms EntitySelect this] EntitySelect Inr r False
      show ?thesis by (simp add: step_def)
    qed
  qed
next
  case (EntityPause entity_type role_label)
  with assms show ?thesis
    by (cases entity_type; cases role_label) (simp_all add: step_def wizard_inv_def)
next
  case (FormatSelect mode)
  with assms show ?thesis
    by (auto simp: step_def wizard_inv_def return_to_main_def launch_aider_start_def
        launch_menu_def split: prod.splits option.splits sum.splits run_result.splits)
next
  case (FormatPause mode)
  with assms show ?thesis by (simp add: step_def wizard_inv_def)
next
  case (LaunchAbort mode)
  then show ?thesis by (simp add: step_def wizard_inv_def return_to_main_def)
next
  case (LaunchConfirm mode)
  with assms show ?thesis
    by (auto simp: step_def wizard_inv_def return_to_main_def launch_confirm_def Let_def
        split: run_result.splits)
next
  case (LaunchPause mode)
  with assms show ?thesis
    by (auto simp: step_def wizard_inv_def launch_menu_def split: option.splits sum.splits)
next
  case (Exited status)
  with assms show ?thesis by (simp add: step_def wizard_inv_def)
next
  case (Crashed e)
  with assms show ?thesis by (simp add: step_def wizard_inv_def)
qed

lemma wizard_inv_run: "wizard_inv p g s \<Longrightarrow> wizard_inv p g (run p g s ins)"
  by (induction ins arbitrary: s) (simp_all add: wizard_inv_step)

lemma session_inv: "wizard_inv p g (run p g initial_wizard ins)"
  by (rule wizard_inv_run) (simp add: wizard_inv_def initial_wizard_def)

lemma cmd_inv_step:
  assumes "cmd_inv g s"
  shows "cmd_inv g (step p g s raw)"
proof (cases "pc s")
  case (EntitySelect entity_type role_label)
  then show ?thesis
    by (cases entity_type; cases role_label)
       (auto simp: step_def cmd_inv_def after_select_def checked_def return_to_main_def
          split: sum.splits prod.splits option.splits check_outcome.splits)
next
  case (FormatSelect mode)
  then show ?thesis
    by (auto simp: step_def cmd_inv_def cmd_built_def launch_aider_start_def launch_menu_def
        return_to_main_def split: prod.splits option.splits sum.splits run_result.splits)
next
  case (LaunchConfirm mode)
  with assms show ?thesis
    by (auto simp: step_def cmd_inv_def cmd_built_def launch_confirm_def return_to_main_def Let_def
        split: run_result.splits option.splits)
next
  case (LaunchPause mode)
  with assms show ?thesis
    by (auto simp: step_def cmd_inv_def cmd_built_def launch_menu_def
        split: option.splits sum.splits)
qed (simp_all add: step_def cmd_inv_def return_to_main_def Let_def)

lemma cmd_inv_run: "cmd_inv g s \<Longrightarrow> cmd_inv g (run p g s ins)"
  by (induction ins arbitrary: s) (simp_all add: cmd_inv_step)

text \<open>
  In every session the command shown at the confirmation menu, and run on "1" with the
  edit-format flag appended, is the one that the builders give for the selection.
\<close>

lemma session_cmd_list:
  assumes "pc (run p g initial_wizard ins) = LaunchConfirm mode"
  shows "\<exists>model. main_model (run p g initial_wizard ins) = Some model \<and>
           base_cmd_list g mode (main_vendor (run p g initial_wizard ins)) model
             (editor_vendor (run p g initial_wizard ins)) (editor_model (run p g initial_wizard ins))
           = Inr (cmd_list (run p g initial_wizard ins))"
proof -
  have "cmd_inv g (run p g initial_wizard ins)"
    by (rule cmd_inv_run) (simp add: cmd_inv_def initial_wizard_def)
  with assms show ?thesis by (simp add: cmd_inv_def cmd_built_def split: option.splits)
qed

lemma launch_runs_current_cmd_list:
  assumes "pc s = LaunchConfirm mode" "strip raw = [] \<or> strip raw = ''1''"
  shows "launched (step p g s raw) = launched s @ [current_cmd_list (cmd_list s) (selected_format s)]"
  using assms
  by (auto simp: step_def launch_confirm_def return_to_main_def Let_def split: run_result.splits)

text \<open>At a model menu the vendor is one that the vendor menu offers and that has a key.\<close>

lemma model_menu_vendor:
  assumes "wizard_inv p g s" "pc s = EntitySelect Model role_label"
  shows "\<exists>vs vendor. available_vendors g = Inr vs \<and> vendor \<in> set vs \<and>
           vendor_arg s Model role_label = Some vendor \<and>
           check_api_key (secondary_keys_file p) g vendor = Passed"
  using assms
  by (cases role_label)
     (auto simp: wizard_inv_def vendor_ok_def vendor_arg_def split: option.splits sum.splits)

lemma editor_vendor_menu_nonempty:
  assumes "wizard_inv p g s" "pc s = EntitySelect Vendor Editor"
  shows "\<exists>vs. available_vendors g = Inr vs \<and> vs \<noteq> []"
  using assms
  by (auto simp: wizard_inv_def vendor_ok_def split: option.splits sum.splits)

lemma menu_entities_defined:
  assumes "wizard_inv p g s" "pc s = EntitySelect entity_type role_label"
    and "length (VENDORS g) \<le> length (VENDOR_KEY_SOURCE g)"
  shows "\<exists>entities. menu_entities g entity_type (vendor_arg s entity_type role_label) = Inr (Some entities)"
proof (cases entity_type)
  case Vendor
  with assms(3) show ?thesis
    by (simp add: menu_entities_def available_vendors_def)
next
  case Model
  with model_menu_vendor [of p g s role_label] assms(1,2) show ?thesis
    by (auto simp: menu_entities_def)
qed

lemma format_loop_step_frame:
  assumes "in_format_loop (pc s)" "in_format_loop (pc (step p g s raw))"
  shows "main_vendor (step p g s raw) = main_vendor s \<and>
         main_model (step p g s raw) = main_model s \<and>
         editor_vendor (step p g s raw) = editor_vendor s \<and>
         editor_model (step p g s raw) = editor_model s"
proof (cases "pc s")
  case (FormatSelect mode)
  with assms(2) show ?thesis
    by (auto simp: step_def launch_aider_start_def launch_menu_def return_to_main_def
        split: prod.splits option.splits sum.splits run_result.splits if_splits)
next
  case (LaunchConfirm mode)
  with assms(2) show ?thesis
    by (auto simp: step_def launch_confirm_def return_to_main_def Let_def
        split: run_result.splits if_splits)
next
  case (LaunchAbort mode)
  with assms(2) show ?thesis by (simp add: step_def return_to_main_def)
next
  case (LaunchPause mode)
  with assms(2) show ?thesis
    by (auto simp: step_def launch_menu_def split: option.splits sum.splits if_splits)
qed (use assms in \<open>simp_all add: step_def\<close>)

section \<open>CredentialResolver: properties\<close>

text \<open>
  C5. When GOOGLE is a configured vendor and only the legacy name GOOGLE_API_KEY is
  present in the environment (set and not empty, while GEMINI_API_KEY is unset or
  empty), the environment pass of the resolver returns, sets the primary name
  GEMINI_API_KEY to the legacy value, and reports the source "env" for GOOGLE.
\<close>

theorem legacy_google_key_normalised:
  assumes wf: "wf_globals g"
    and idx: "py_index (VENDORS g) ''GOOGLE'' = Some i"
    and legacy: "environ g ''GOOGLE_API_KEY'' = Some key" "key \<noteq> []"
    and primary: "\<not> truthy (environ g ''GEMINI_API_KEY'')"
  shows "\<exists>all_found g'. load_keys_from_env g = Inr (all_found, g') \<and>
           environ g' ''GEMINI_API_KEY'' = Some key \<and>
           environ g' ''GOOGLE_API_KEY'' = Some key \<and>
           py_getitem (VENDOR_KEY_SOURCE g') i = Inr ''env''"
proof -
  let ?n = "length (VENDORS g)"
  from py_index_Some [OF idx] have i: "i < ?n" by simp
  from wf have len: "length (VENDOR_KEY_SOURCE g) = ?n" "length (VENDOR_API_KEY_VARS g) = ?n"
    and vars: "VENDOR_API_KEY_VARS g = vendor_key_vars (VENDORS g)"
    by (simp_all add: wf_globals_def vendor_key_vars_length)
  have single: "\<exists>v. VENDOR_API_KEY_VARS g ! j = Single v" if "j < ?n" "j \<noteq> i" for j
    using that idx vars by (simp add: vendor_key_vars_other)
  have multi: "VENDOR_API_KEY_VARS g ! i = Multi [''GEMINI_API_KEY'', ''GOOGLE_API_KEY'']"
    using idx vars by (simp add: vendor_key_vars_google)
  \<comment> \<open>the vendors before GOOGLE\<close>
  have "\<forall>j\<in>set [0..<i]. j < length (VENDOR_KEY_SOURCE g) \<and> j < length (VENDOR_API_KEY_VARS g) \<and>
          (\<exists>v. VENDOR_API_KEY_VARS g ! j = Single v)"
    using i len single by auto
  from load_env_loop_singles [OF this, of True] obtain af1 src1 where
    p1: "load_env_loop [0..<i] True g = Inr (af1, g\<lparr>VENDOR_KEY_SOURCE := src1\<rparr>)"
      "length src1 = length (VENDOR_KEY_SOURCE g)"
    by blast
  let ?g1 = "g\<lparr>VENDOR_KEY_SOURCE := src1\<rparr>"
  \<comment> \<open>GOOGLE itself\<close>
  let ?env2 = "(environ g)(''GEMINI_API_KEY'' \<mapsto> key)"
  let ?g2 = "g\<lparr>VENDOR_KEY_SOURCE := src1[i := ''env''], environ := ?env2\<rparr>"
  have scan: "env_scan_vars (environ g) [''GEMINI_API_KEY'', ''GOOGLE_API_KEY''] = Some ?env2"
    using legacy primary by (simp add: truthy_def)
  have p2: "load_env_vendor ?g1 i = Inr (True, ?g2)"
    using i len p1(2) multi scan
    by (simp add: load_env_vendor_def py_getitem_def py_setitem_def)
  \<comment> \<open>the vendors after GOOGLE\<close>
  have "\<forall>j\<in>set [Suc i..<?n]. j < length (VENDOR_KEY_SOURCE ?g2) \<and>
          j < length (VENDOR_API_KEY_VARS ?g2) \<and> (\<exists>v. VENDOR_API_KEY_VARS ?g2 ! j = Single v)"
    using len p1(2) single by auto
  from load_env_loop_singles [OF this, of "af1 \<and> True"] obtain af3 src3 where
    p3: "load_env_loop [Suc i..<?n] (af1 \<and> True) ?g2 = Inr (af3, ?g2\<lparr>VENDOR_KEY_SOURCE := src3\<rparr>)"
      "length src3 = length (VENDOR_KEY_SOURCE ?g2)"
      "\<forall>k. k \<notin> set [Suc i..<?n] \<longrightarrow> src3 ! k = VENDOR_KEY_SOURCE ?g2 ! k"
    by blast
  let ?g3 = "?g2\<lparr>VENDOR_KEY_SOURCE := src3\<rparr>"
  have whole: "load_keys_from_env g = Inr (af3, ?g3)"
    using p1(1) p2 p3(1)
    by (simp add: load_keys_from_env_def upt_split_at [OF i] load_env_loop_append)
  have "src3 ! i = ''env''"
    using p3(3) i len p1(2) by simp
  then have src: "py_getitem (VENDOR_KEY_SOURCE ?g3) i = Inr ''env''"
    using p3(2) p1(2) len i by (simp add: py_getitem_def)
  have env: "environ ?g3 ''GEMINI_API_KEY'' = Some key" "environ ?g3 ''GOOGLE_API_KEY'' = Some key"
    using legacy by simp_all
  from whole src env show ?thesis by blast
qed

theorem legacy_google_key_normalised_witness:
  "wf_globals legacy_globals \<and>
   py_index (VENDORS legacy_globals) ''GOOGLE'' = Some 1 \<and>
   environ legacy_globals ''GOOGLE_API_KEY'' = Some ''AIza-legacy'' \<and>
   \<not> truthy (environ legacy_globals ''GEMINI_API_KEY'') \<and>
   (\<exists>all_found g'. load_keys_from_env legacy_globals = Inr (all_found, g') \<and>
      environ g' ''GEMINI_API_KEY'' = Some ''AIza-legacy'' \<and>
      environ g' ''GOOGLE_API_KEY'' = Some ''AIza-legacy'' \<and>
      py_getitem (VENDOR_KEY_SOURCE g') 1 = Inr ''env'')"
  using legacy_google_key_normalised [of legacy_globals 1 "''AIza-legacy''"]
  by (simp add: legacy_globals_def initialize_configuration_def wf_globals_def truthy_def)

text \<open>
  C4. The claim is that parsing the credentials file never overwrites the value of a
  variable that is already set in the environment. The code does overwrite it: for
  OPENAI_API_KEY set to "sk-from-env" in the environment and to "sk-from-file" in the file,
  the variable holds "sk-from-file" after \<^verbatim>\<open>load_api_keys\<close>, while the source of OPENAI
  stays "env", so that no key flag is passed and the tool reads the value of the file
  from the environment it inherits.
\<close>

theorem file_value_overwrites_environment:
  "environ (initialize_configuration overwrite_config overwrite_environ) ''OPENAI_API_KEY''
     = Some ''sk-from-env'' \<and>
   (case load_api_keys overwrite_files demo_keys_file
           (initialize_configuration overwrite_config overwrite_environ) of
      Inl e \<Rightarrow> False
    | Inr g \<Rightarrow> VENDOR_KEY_SOURCE g = [''env''] \<and>
               environ g ''OPENAI_API_KEY'' = Some ''sk-from-file'' \<and>
               build_main_model_args g (Some ''OPENAI'') ''gpt-4o'' = Inr [''--model'', ''gpt-4o''])"
  by code_simp

text \<open>
  C3, as amended. When \<^verbatim>\<open>check_api_key\<close> runs for a configured vendor whose source
  (the one at the first index of its name) is "unset", or none of whose key variables is
  set to a non-empty value, it prints the guidance (the source status, the environment
  variable names that were checked, the line of the primary keys file and the line of the
  secondary keys file) and ends the process with exit status 1. So whenever such a
  vendor is selected at a vendor menu, the process ends with status 1: the wizard does
  not return to the vendor selection. With distinct vendor names a vendor whose source is
  "unset" is not offered by any vendor menu.
\<close>

theorem credential_error_exits_process:
  assumes wf: "wf_globals g"
    and idx: "py_index (VENDORS g) vendor = Some i"
    and fails: "VENDOR_KEY_SOURCE g ! i = ''unset'' \<or>
                (if vendor = ''GOOGLE''
                 then \<not> truthy (environ g ''GEMINI_API_KEY'') \<and> \<not> truthy (environ g ''GOOGLE_API_KEY'')
                 else \<not> truthy (environ g (vendor @ ''_API_KEY'')))"
  shows "\<exists>lines. check_api_key f g vendor = Exits 1 lines \<and>
           ''Source status: '' @ VENDOR_KEY_SOURCE g ! i \<in> set lines \<and>
           (if vendor = ''GOOGLE''
            then ''  - Environment Variable: GEMINI_API_KEY'' \<in> set lines \<and>
                 ''  - Environment Variable: GOOGLE_API_KEY'' \<in> set lines
            else ''  - Environment Variable: '' @ vendor @ ''_API_KEY'' \<in> set lines) \<and>
           (case environ g ''PRIMARY_KEYS_FILE'' of
              None \<Rightarrow> ''  - Primary Keys File (env): $PRIMARY_KEYS_FILE (not set)'' \<in> set lines
            | Some path \<Rightarrow>
                if path = [] then ''  - Primary Keys File (env): $PRIMARY_KEYS_FILE (not set)'' \<in> set lines
                else ''  - Primary Keys File (env): $PRIMARY_KEYS_FILE -> '' @ path \<in> set lines) \<and>
           ''  - Secondary Keys File (default): '' @ f \<in> set lines \<and>
           (\<forall>p s role_label raw.
              secondary_keys_file p = f \<and> pc s = EntitySelect Vendor role_label \<and>
              select_entity g Vendor role_label (vendor_arg s Vendor role_label) raw
                = Inr (Some vendor, False) \<and>
              vendor \<noteq> ''invalid'' \<and> (role_label = Editor \<longrightarrow> vendor \<noteq> ''default'') \<longrightarrow>
              pc (step p g s raw) = Exited 1) \<and>
           (\<forall>vs. VENDOR_KEY_SOURCE g ! i = ''unset'' \<and> distinct (VENDORS g) \<and>
              available_vendors g = Inr vs \<longrightarrow> vendor \<notin> set vs)"
proof -
  from py_index_Some [OF idx] wf have i: "i < length (VENDOR_KEY_SOURCE g)" "i < length (VENDORS g)"
    "VENDORS g ! i = vendor"
    by (simp_all add: wf_globals_def)
  then have src: "py_getitem (VENDOR_KEY_SOURCE g) i = Inr (VENDOR_KEY_SOURCE g ! i)"
    by (simp add: py_getitem_def)
  note vars = key_vars_of_vendor [OF wf idx]
  let ?vars = "if vendor = ''GOOGLE'' then Multi [''GEMINI_API_KEY'', ''GOOGLE_API_KEY'']
               else Single (vendor @ ''_API_KEY'')"
  let ?lines = "key_error_lines g f vendor ?vars (VENDOR_KEY_SOURCE g ! i)"
  have chk: "check_api_key f g vendor = Exits 1 ?lines"
    using idx src vars fails by (auto simp: check_api_key_def)
  have l1: "''Source status: '' @ VENDOR_KEY_SOURCE g ! i \<in> set ?lines"
    by (simp add: key_error_lines_def)
  have l2: "if vendor = ''GOOGLE''
            then ''  - Environment Variable: GEMINI_API_KEY'' \<in> set ?lines \<and>
                 ''  - Environment Variable: GOOGLE_API_KEY'' \<in> set ?lines
            else ''  - Environment Variable: '' @ vendor @ ''_API_KEY'' \<in> set ?lines"
    by (simp add: key_error_lines_def str_key_vars_def)
  have l3: "case environ g ''PRIMARY_KEYS_FILE'' of
              None \<Rightarrow> ''  - Primary Keys File (env): $PRIMARY_KEYS_FILE (not set)'' \<in> set ?lines
            | Some path \<Rightarrow>
                if path = [] then ''  - Primary Keys File (env): $PRIMARY_KEYS_FILE (not set)'' \<in> set ?lines
                else ''  - Primary Keys File (env): $PRIMARY_KEYS_FILE -> '' @ path \<in> set ?lines"
    by (simp add: key_error_lines_def split: option.splits)
  have l4: "''  - Secondary Keys File (default): '' @ f \<in> set ?lines"
    by (simp add: key_error_lines_def)
  have ex: "\<forall>p s role_label raw.
      secondary_keys_file p = f \<and> pc s = EntitySelect Vendor role_label \<and>
      select_entity g Vendor role_label (vendor_arg s Vendor role_label) raw
        = Inr (Some vendor, False) \<and>
      vendor \<noteq> ''invalid'' \<and> (role_label = Editor \<longrightarrow> vendor \<noteq> ''default'') \<longrightarrow>
      pc (step p g s raw) = Exited 1"
  proof (intro allI impI; elim conjE)
    fix p :: platform and s :: wizard and role_label raw
    assume a: "secondary_keys_file p = f" "pc s = EntitySelect Vendor role_label"
      "select_entity g Vendor role_label (vendor_arg s Vendor role_label) raw = Inr (Some vendor, False)"
      "vendor \<noteq> ''invalid''" "role_label = Editor \<longrightarrow> vendor \<noteq> ''default''"
    from chk a(1) have "pc (checked p g vendor c s') = Exited 1" for c s'
      by (simp add: checked_def)
    with a(2-5) show "pc (step p g s raw) = Exited 1"
      by (cases role_label) (simp_all add: step_def after_select_def)
  qed
  have off: "\<forall>vs. VENDOR_KEY_SOURCE g ! i = ''unset'' \<and> distinct (VENDORS g) \<and>
      available_vendors g = Inr vs \<longrightarrow> vendor \<notin> set vs"
    using available_vendors_unset [of g _ i] i(2,3) by blast
  from chk l1 l2 l3 l4 ex off show ?thesis
    by (intro exI [of _ ?lines] conjI)
qed

theorem credential_error_exits_process_witness:
  "wf_globals dup_globals \<and>
   py_index (VENDORS dup_globals) ''GEMINI'' = Some 0 \<and>
   VENDOR_KEY_SOURCE dup_globals ! 0 = ''unset'' \<and>
   (\<exists>lines. check_api_key demo_keys_file dup_globals ''GEMINI'' = Exits 1 lines \<and>
      ''Source status: unset'' \<in> set lines \<and>
      ''  - Environment Variable: GEMINI_API_KEY'' \<in> set lines \<and>
      ''  - Primary Keys File (env): $PRIMARY_KEYS_FILE (not set)'' \<in> set lines \<and>
      ''  - Secondary Keys File (default): /home/op/.llm_api_keys'' \<in> set lines) \<and>
   pc (run demo_platform dup_globals initial_wizard [''1'']) = EntitySelect Vendor Code \<and>
   select_entity dup_globals Vendor Code None ''2'' = Inr (Some ''GEMINI'', False) \<and>
   pc (step demo_platform dup_globals (run demo_platform dup_globals initial_wizard [''1'']) ''2'')
     = Exited 1 \<and>
   wf_globals empty_key_globals \<and>
   py_index (VENDORS empty_key_globals) ''OPENAI'' = Some 0 \<and>
   VENDOR_KEY_SOURCE empty_key_globals ! 0 = ''file'' \<and>
   \<not> truthy (environ empty_key_globals ''OPENAI_API_KEY'') \<and>
   pc (run demo_platform empty_key_globals initial_wizard [''1'']) = EntitySelect Vendor Code \<and>
   select_entity empty_key_globals Vendor Code None ''1'' = Inr (Some ''OPENAI'', False) \<and>
   pc (step demo_platform empty_key_globals
         (run demo_platform empty_key_globals initial_wizard [''1'']) ''1'')
     = Exited 1 \<and>
   wf_globals demo_globals \<and>
   py_index (VENDORS demo_globals) ''DEEPSEEK'' = Some 4 \<and>
   VENDOR_KEY_SOURCE demo_globals ! 4 = ''unset'' \<and>
   distinct (VENDORS demo_globals) \<and>
   available_vendors demo_globals = Inr [''GOOGLE'', ''OPENAI'', ''MISTRAL'', ''ANTHROPIC''] \<and>
   ''DEEPSEEK'' \<notin> set [''GOOGLE'', ''OPENAI'', ''MISTRAL'', ''ANTHROPIC'']"
proof -
  let ?d = "run demo_platform dup_globals initial_wizard [''1'']"
  let ?e = "run demo_platform empty_key_globals initial_wizard [''1'']"
  have f: "secondary_keys_file demo_platform = demo_keys_file"
    by (simp add: demo_platform_def)
  \<comment> \<open>the vendor name listed twice\<close>
  have dwf: "wf_globals dup_globals"
    by (simp add: wf_globals_def dup_globals_def vendor_key_vars_def)
  have didx: "py_index (VENDORS dup_globals) ''GEMINI'' = Some 0"
    by code_simp
  have dsrc: "VENDOR_KEY_SOURCE dup_globals ! 0 = ''unset''"
    by (simp add: dup_globals_def)
  have dprimary: "environ dup_globals ''PRIMARY_KEYS_FILE'' = None"
    by (simp add: dup_globals_def)
  have dat: "pc ?d = EntitySelect Vendor Code" "vendor_arg ?d Vendor Code = None"
    by code_simp+
  have dsel: "select_entity dup_globals Vendor Code None ''2'' = Inr (Some ''GEMINI'', False)"
    by code_simp
  have dne: "''GEMINI'' \<noteq> ''invalid''"
    by simp
  from dsrc have dfails: "VENDOR_KEY_SOURCE dup_globals ! 0 = ''unset'' \<or>
      (if ''GEMINI'' = ''GOOGLE''
       then \<not> truthy (environ dup_globals ''GEMINI_API_KEY'') \<and>
            \<not> truthy (environ dup_globals ''GOOGLE_API_KEY'')
       else \<not> truthy (environ dup_globals (''GEMINI'' @ ''_API_KEY'')))"
    by (rule disjI1)
  from credential_error_exits_process [OF dwf didx dfails, of demo_keys_file]
  obtain lines where l: "check_api_key demo_keys_file dup_globals ''GEMINI'' = Exits 1 lines"
    "''Source status: '' @ VENDOR_KEY_SOURCE dup_globals ! 0 \<in> set lines"
    "''  - Environment Variable: '' @ ''GEMINI'' @ ''_API_KEY'' \<in> set lines"
    "case environ dup_globals ''PRIMARY_KEYS_FILE'' of
       None \<Rightarrow> ''  - Primary Keys File (env): $PRIMARY_KEYS_FILE (not set)'' \<in> set lines
     | Some path \<Rightarrow>
         if path = [] then ''  - Primary Keys File (env): $PRIMARY_KEYS_FILE (not set)'' \<in> set lines
         else ''  - Primary Keys File (env): $PRIMARY_KEYS_FILE -> '' @ path \<in> set lines"
    "''  - Secondary Keys File (default): '' @ demo_keys_file \<in> set lines"
    "\<forall>p s role_label raw.
       secondary_keys_file p = demo_keys_file \<and> pc s = EntitySelect Vendor role_label \<and>
       select_entity dup_globals Vendor role_label (vendor_arg s Vendor role_label) raw
         = Inr (Some ''GEMINI'', False) \<and>
       ''GEMINI'' \<noteq> ''invalid'' \<and> (role_label = Editor \<longrightarrow> ''GEMINI'' \<noteq> ''default'') \<longrightarrow>
       pc (step p dup_globals s raw) = Exited 1"
    by auto
  from l(2) dsrc have l2: "''Source status: unset'' \<in> set lines"
    by simp
  from l(3,5) have l3: "''  - Environment Variable: GEMINI_API_KEY'' \<in> set lines"
    "''  - Secondary Keys File (default): /home/op/.llm_api_keys'' \<in> set lines"
    by (simp_all add: demo_keys_file_def)
  from l(4) dprimary have l4: "''  - Primary Keys File (env): $PRIMARY_KEYS_FILE (not set)'' \<in> set lines"
    by simp
  from l(1) l2 l3 l4
  have dlines: "\<exists>lines. check_api_key demo_keys_file dup_globals ''GEMINI'' = Exits 1 lines \<and>
      ''Source status: unset'' \<in> set lines \<and>
      ''  - Environment Variable: GEMINI_API_KEY'' \<in> set lines \<and>
      ''  - Primary Keys File (env): $PRIMARY_KEYS_FILE (not set)'' \<in> set lines \<and>
      ''  - Secondary Keys File (default): /home/op/.llm_api_keys'' \<in> set lines"
    by (intro exI [of _ lines] conjI)
  from l(6) [rule_format, of demo_platform ?d Code "''2''"] f dat dsel
  have dexit: "pc (step demo_platform dup_globals ?d ''2'') = Exited 1"
    by simp
  \<comment> \<open>the variable with an empty value\<close>
  have ewf: "wf_globals empty_key_globals"
    by (simp add: wf_globals_def empty_key_globals_def vendor_key_vars_def)
  have eidx: "py_index (VENDORS empty_key_globals) ''OPENAI'' = Some 0"
    by code_simp
  have esrc: "VENDOR_KEY_SOURCE empty_key_globals ! 0 = ''file''"
    by (simp add: empty_key_globals_def)
  have ekey: "\<not> truthy (environ empty_key_globals ''OPENAI_API_KEY'')"
    by (simp add: empty_key_globals_def truthy_def)
  have eat: "pc ?e = EntitySelect Vendor Code" "vendor_arg ?e Vendor Code = None"
    by code_simp+
  have esel: "select_entity empty_key_globals Vendor Code None ''1'' = Inr (Some ''OPENAI'', False)"
    by code_simp
  from ekey have efails: "VENDOR_KEY_SOURCE empty_key_globals ! 0 = ''unset'' \<or>
      (if ''OPENAI'' = ''GOOGLE''
       then \<not> truthy (environ empty_key_globals ''GEMINI_API_KEY'') \<and>
            \<not> truthy (environ empty_key_globals ''GOOGLE_API_KEY'')
       else \<not> truthy (environ empty_key_globals (''OPENAI'' @ ''_API_KEY'')))"
    by simp
  from credential_error_exits_process [OF ewf eidx efails, of demo_keys_file]
  have "\<forall>p s role_label raw.
       secondary_keys_file p = demo_keys_file \<and> pc s = EntitySelect Vendor role_label \<and>
       select_entity empty_key_globals Vendor role_label (vendor_arg s Vendor role_label) raw
         = Inr (Some ''OPENAI'', False) \<and>
       ''OPENAI'' \<noteq> ''invalid'' \<and> (role_label = Editor \<longrightarrow> ''OPENAI'' \<noteq> ''default'') \<longrightarrow>
       pc (step p empty_key_globals s raw) = Exited 1"
    by auto
  from this [rule_format, of demo_platform ?e Code "''1''"] f eat esel
  have eexit: "pc (step demo_platform empty_key_globals ?e ''1'') = Exited 1"
    by simp
  \<comment> \<open>distinct vendor names\<close>
  have idx: "py_index (VENDORS demo_globals) ''DEEPSEEK'' = Some 4"
    by code_simp
  have unset: "VENDOR_KEY_SOURCE demo_globals ! 4 = ''unset''"
    by (simp add: demo_globals_def)
  have dist: "distinct (VENDORS demo_globals)"
    by (simp add: demo_globals_def)
  have av: "available_vendors demo_globals = Inr [''GOOGLE'', ''OPENAI'', ''MISTRAL'', ''ANTHROPIC'']"
    by code_simp
  from unset have ufails: "VENDOR_KEY_SOURCE demo_globals ! 4 = ''unset'' \<or>
      (if ''DEEPSEEK'' = ''GOOGLE''
       then \<not> truthy (environ demo_globals ''GEMINI_API_KEY'') \<and>
            \<not> truthy (environ demo_globals ''GOOGLE_API_KEY'')
       else \<not> truthy (environ demo_globals (''DEEPSEEK'' @ ''_API_KEY'')))"
    by (rule disjI1)
  from credential_error_exits_process [OF demo_wf idx ufails, of demo_keys_file]
  have "\<forall>vs. VENDOR_KEY_SOURCE demo_globals ! 4 = ''unset'' \<and> distinct (VENDORS demo_globals) \<and>
       available_vendors demo_globals = Inr vs \<longrightarrow> ''DEEPSEEK'' \<notin> set vs"
    by auto
  with unset dist av have off: "''DEEPSEEK'' \<notin> set [''GOOGLE'', ''OPENAI'', ''MISTRAL'', ''ANTHROPIC'']"
    by blast
  from dwf didx dsrc dlines dat(1) dsel dexit ewf eidx esrc ekey eat(1) esel eexit
    demo_wf idx unset dist av off
  show ?thesis by (intro conjI)
qed

text \<open>
  C3 as stated fails. The configuration lists the vendor name GEMINI twice, around
  GOOGLE, and the environment holds only GOOGLE_API_KEY. After start-up the source of
  GEMINI, the one at the first index of the name, which \<^verbatim>\<open>check_api_key\<close> and the
  builders read, is "unset", while the second entry of the name has the source "env", so
  that the vendor menu offers GEMINI. The operator selects it in code mode:
  \<^verbatim>\<open>check_api_key\<close> prints the guidance with "Source status: unset" and ends the process
  with exit status 1, where the claim says that the process is never terminated and the
  vendor selection is shown again.
\<close>

theorem credential_error_counterexample:
  "load_api_keys Map.empty demo_keys_file (initialize_configuration dup_config dup_environ)
     = Inr dup_globals \<and>
   py_index (VENDORS dup_globals) ''GEMINI'' = Some 0 \<and>
   VENDOR_KEY_SOURCE dup_globals = [''unset'', ''env'', ''env''] \<and>
   available_vendors dup_globals = Inr [''GOOGLE'', ''GEMINI''] \<and>
   pc (run demo_platform dup_globals initial_wizard [''1'']) = EntitySelect Vendor Code \<and>
   select_entity dup_globals Vendor Code None ''2'' = Inr (Some ''GEMINI'', False) \<and>
   check_api_key demo_keys_file dup_globals ''GEMINI'' =
     Exits 1
       [[CHR 0x0A] @ ''Error: API key for GEMINI is not set or could not be loaded.'',
        ''Source status: unset'',
        ''Please ensure it is defined either as an environment variable (GEMINI_API_KEY)'',
        ''or within your API keys file.'',
        ''Checked locations:'',
        ''  - Environment Variable: GEMINI_API_KEY'',
        ''  - Primary Keys File (env): $PRIMARY_KEYS_FILE (not set)'',
        ''  - Secondary Keys File (default): /home/op/.llm_api_keys''] \<and>
   pc (run demo_platform dup_globals initial_wizard [''1'', ''2'']) = Exited 1 \<and>
   pc (run demo_platform dup_globals initial_wizard [''1'', ''2'']) \<noteq> EntitySelect Vendor Code"
proof -
  have startup: "load_api_keys Map.empty demo_keys_file (initialize_configuration dup_config dup_environ)
      = Inr dup_globals"
    by (rule dup_startup)
  have session: "py_index (VENDORS dup_globals) ''GEMINI'' = Some 0 \<and>
      VENDOR_KEY_SOURCE dup_globals = [''unset'', ''env'', ''env''] \<and>
      available_vendors dup_globals = Inr [''GOOGLE'', ''GEMINI''] \<and>
      pc (run demo_platform dup_globals initial_wizard [''1'']) = EntitySelect Vendor Code \<and>
      select_entity dup_globals Vendor Code None ''2'' = Inr (Some ''GEMINI'', False) \<and>
      check_api_key demo_keys_file dup_globals ''GEMINI'' =
        Exits 1
          [[CHR 0x0A] @ ''Error: API key for GEMINI is not set or could not be loaded.'',
           ''Source status: unset'',
           ''Please ensure it is defined either as an environment variable (GEMINI_API_KEY)'',
           ''or within your API keys file.'',
           ''Checked locations:'',
           ''  - Environment Variable: GEMINI_API_KEY'',
           ''  - Primary Keys File (env): $PRIMARY_KEYS_FILE (not set)'',
           ''  - Secondary Keys File (default): /home/op/.llm_api_keys''] \<and>
      pc (run demo_platform dup_globals initial_wizard [''1'', ''2'']) = Exited 1 \<and>
      pc (run demo_platform dup_globals initial_wizard [''1'', ''2'']) \<noteq> EntitySelect Vendor Code"
    by code_simp
  from startup session show ?thesis
    by (rule conjI)
qed

text \<open>
  The same end of the process with distinct vendor names: the file defines the variable
  of OPENAI with an empty value, so that the source is "file" and the vendor is offered;
  choosing it in code mode ends the process with status 1.
\<close>

lemma empty_key_startup:
  "load_api_keys empty_key_files demo_keys_file (initialize_configuration overwrite_config Map.empty)
     = Inr empty_key_globals"
  by (simp add: load_api_keys_def load_keys_from_env_def initialize_configuration_def
      overwrite_config_def empty_key_files_def empty_key_globals_def demo_keys_file_def
      vendor_key_vars_def load_env_vendor_def py_getitem_def py_setitem_def truthy_def
      find_keys_file_def load_keys_from_file_def load_file_line_def strip_def isspace_def
      match_assignment_def is_word_char_def is_quote_def Let_def upt_rec)

lemma empty_key_session_exits:
  "available_vendors empty_key_globals = Inr [''OPENAI''] \<and>
   pc (run demo_platform empty_key_globals initial_wizard [''1'']) = EntitySelect Vendor Code \<and>
   pc (run demo_platform empty_key_globals initial_wizard [''1'', ''1'']) = Exited 1"
  by code_simp

section \<open>CommandBuilder: properties\<close>

text \<open>
  C1, as amended. For a completed selection (the main vendor is configured and has
  passed \<^verbatim>\<open>check_api_key\<close>): when the source of the main vendor is "file" and the vendor
  is GOOGLE, the arguments for the main model are the model flag followed by exactly one
  key flag, \<open>--api-key google=<key>\<close>, with the value of GEMINI_API_KEY or else of
  GOOGLE_API_KEY; when the source is "file" and the vendor is ANTHROPIC, OPENAI or
  DEEPSEEK, they are the model flag followed by exactly one key flag with the name of
  the vendor (\<open>--anthropic-api-key\<close>, \<open>--openai-api-key\<close>, \<open>--deepseek-api-key\<close>) and
  the raw key; when the source is "file" and the vendor is any other one, and when the
  source is "env", they are the model flag alone.
\<close>

theorem main_key_flag_by_source:
  assumes wf: "wf_globals g"
    and chk: "check_api_key f g vendor = Passed"
    and idx: "py_index (VENDORS g) vendor = Some i"
  shows "(VENDOR_KEY_SOURCE g ! i = ''file'' \<and> vendor = ''GOOGLE'' \<longrightarrow>
            (\<exists>key. key \<noteq> [] \<and>
               first_set_value (environ g) [''GEMINI_API_KEY'', ''GOOGLE_API_KEY''] = Some key \<and>
               build_main_model_args g (Some vendor) model =
                 Inr [''--model'', model, ''--api-key'', ''google='' @ key])) \<and>
         (VENDOR_KEY_SOURCE g ! i = ''file'' \<and> vendor \<in> {''ANTHROPIC'', ''OPENAI'', ''DEEPSEEK''} \<longrightarrow>
            (\<exists>key. key \<noteq> [] \<and> environ g (vendor @ ''_API_KEY'') = Some key \<and>
               build_main_model_args g (Some vendor) model =
                 Inr [''--model'', model,
                      if vendor = ''ANTHROPIC'' then ''--anthropic-api-key''
                      else if vendor = ''OPENAI'' then ''--openai-api-key''
                      else ''--deepseek-api-key'',
                      key])) \<and>
         (VENDOR_KEY_SOURCE g ! i = ''file'' \<and>
            vendor \<notin> {''GOOGLE'', ''ANTHROPIC'', ''OPENAI'', ''DEEPSEEK''} \<longrightarrow>
            build_main_model_args g (Some vendor) model = Inr [''--model'', model]) \<and>
         (VENDOR_KEY_SOURCE g ! i = ''env'' \<longrightarrow>
            build_main_model_args g (Some vendor) model = Inr [''--model'', model])"
proof -
  from py_index_Some [OF idx] wf have i: "i < length (VENDOR_KEY_SOURCE g)"
    by (simp add: wf_globals_def)
  then have src: "py_getitem (VENDOR_KEY_SOURCE g) i = Inr (VENDOR_KEY_SOURCE g ! i)"
    by (simp add: py_getitem_def)
  note vars = key_vars_of_vendor [OF wf idx]
  from check_passed_source [OF chk] idx vars
  have keyset: "if vendor = ''GOOGLE''
             then list_ex (\<lambda>var. truthy (environ g var)) [''GEMINI_API_KEY'', ''GOOGLE_API_KEY'']
             else truthy (environ g (vendor @ ''_API_KEY''))"
    by (auto split: if_splits)
  have env: "build_main_model_args g (Some vendor) model = Inr [''--model'', model]"
    if "VENDOR_KEY_SOURCE g ! i = ''env''"
    using main_args_not_file [OF idx src] that by simp
  have google: "\<exists>key. key \<noteq> [] \<and>
         first_set_value (environ g) [''GEMINI_API_KEY'', ''GOOGLE_API_KEY''] = Some key \<and>
         build_main_model_args g (Some vendor) model =
           Inr [''--model'', model, ''--api-key'', ''google='' @ key]"
    if fsrc: "VENDOR_KEY_SOURCE g ! i = ''file''" and v: "vendor = ''GOOGLE''"
  proof -
    from keyset v have "list_ex (\<lambda>var. truthy (environ g var)) [''GEMINI_API_KEY'', ''GOOGLE_API_KEY'']"
      by simp
    from first_set_value_truthy [OF this] obtain key where
      key: "first_set_value (environ g) [''GEMINI_API_KEY'', ''GOOGLE_API_KEY''] = Some key" "key \<noteq> []"
      by blast
    from vars v have "py_getitem (VENDOR_API_KEY_VARS g) i =
        Inr (Multi [''GEMINI_API_KEY'', ''GOOGLE_API_KEY''])"
      by simp
    from main_args_file_multi [OF idx _ this key, of model] src fsrc
    have "build_main_model_args g (Some vendor) model =
        Inr ([''--model'', model] @ api_key_flag vendor key)"
      by simp
    with v have "build_main_model_args g (Some vendor) model =
        Inr [''--model'', model, ''--api-key'', ''google='' @ key]"
      by (simp add: api_key_flag_def)
    with key show ?thesis by blast
  qed
  have single: "\<exists>key. key \<noteq> [] \<and> environ g (vendor @ ''_API_KEY'') = Some key \<and>
         build_main_model_args g (Some vendor) model =
           Inr ([''--model'', model] @ api_key_flag vendor key)"
    if fsrc: "VENDOR_KEY_SOURCE g ! i = ''file''" and v: "vendor \<noteq> ''GOOGLE''"
  proof -
    from keyset v obtain key where
      key: "environ g (vendor @ ''_API_KEY'') = Some key" "key \<noteq> []"
      by (auto simp: truthy_Some)
    from vars v have "py_getitem (VENDOR_API_KEY_VARS g) i = Inr (Single (vendor @ ''_API_KEY''))"
      by simp
    from main_args_file_single [OF idx _ this _ key, of model] src fsrc
    have "build_main_model_args g (Some vendor) model =
        Inr ([''--model'', model] @ api_key_flag vendor key)"
      by simp
    with key show ?thesis by blast
  qed
  have others: "\<exists>key. key \<noteq> [] \<and> environ g (vendor @ ''_API_KEY'') = Some key \<and>
         build_main_model_args g (Some vendor) model =
           Inr [''--model'', model,
                if vendor = ''ANTHROPIC'' then ''--anthropic-api-key''
                else if vendor = ''OPENAI'' then ''--openai-api-key''
                else ''--deepseek-api-key'',
                key]"
    if fsrc: "VENDOR_KEY_SOURCE g ! i = ''file''"
      and v: "vendor \<in> {''ANTHROPIC'', ''OPENAI'', ''DEEPSEEK''}"
  proof -
    from v have ng: "vendor \<noteq> ''GOOGLE''" by auto
    from single [OF fsrc ng] obtain key where
      key: "key \<noteq> []" "environ g (vendor @ ''_API_KEY'') = Some key"
        "build_main_model_args g (Some vendor) model =
           Inr ([''--model'', model] @ api_key_flag vendor key)"
      by blast
    from v consider "vendor = ''ANTHROPIC''" | "vendor = ''OPENAI''" | "vendor = ''DEEPSEEK''"
      by blast
    then have "[''--model'', model] @ api_key_flag vendor key =
        [''--model'', model,
         if vendor = ''ANTHROPIC'' then ''--anthropic-api-key''
         else if vendor = ''OPENAI'' then ''--openai-api-key''
         else ''--deepseek-api-key'',
         key]"
      by cases (simp_all add: api_key_flag_def)
    with key show ?thesis by auto
  qed
  have unknown: "build_main_model_args g (Some vendor) model = Inr [''--model'', model]"
    if fsrc: "VENDOR_KEY_SOURCE g ! i = ''file''"
      and v: "vendor \<notin> {''GOOGLE'', ''ANTHROPIC'', ''OPENAI'', ''DEEPSEEK''}"
  proof -
    from v have ng: "vendor \<noteq> ''GOOGLE''" by simp
    from single [OF fsrc ng] obtain key where
      key: "build_main_model_args g (Some vendor) model =
           Inr ([''--model'', model] @ api_key_flag vendor key)"
      by blast
    from v have "api_key_flag vendor key = []"
      by (simp add: api_key_flag_def)
    with key show ?thesis by simp
  qed
  show ?thesis
    by (intro conjI impI; (elim conjE)?; rule google others unknown env; assumption)
qed

theorem main_key_flag_by_source_witness:
  "wf_globals demo_globals \<and>
   check_api_key demo_keys_file demo_globals ''OPENAI'' = Passed \<and>
   py_index (VENDORS demo_globals) ''OPENAI'' = Some 1 \<and>
   VENDOR_KEY_SOURCE demo_globals ! 1 = ''file'' \<and>
   build_main_model_args demo_globals (Some ''OPENAI'') ''gpt-4o''
     = Inr [''--model'', ''gpt-4o'', ''--openai-api-key'', ''sk-file''] \<and>
   check_api_key demo_keys_file demo_globals ''GOOGLE'' = Passed \<and>
   py_index (VENDORS demo_globals) ''GOOGLE'' = Some 0 \<and>
   VENDOR_KEY_SOURCE demo_globals ! 0 = ''file'' \<and>
   build_main_model_args demo_globals (Some ''GOOGLE'') ''gemini-2.5-pro''
     = Inr [''--model'', ''gemini-2.5-pro'', ''--api-key'', ''google=AIza-file''] \<and>
   check_api_key demo_keys_file demo_globals ''ANTHROPIC'' = Passed \<and>
   py_index (VENDORS demo_globals) ''ANTHROPIC'' = Some 3 \<and>
   VENDOR_KEY_SOURCE demo_globals ! 3 = ''env'' \<and>
   build_main_model_args demo_globals (Some ''ANTHROPIC'') ''claude-3-5-haiku-20241022''
     = Inr [''--model'', ''claude-3-5-haiku-20241022'']"
proof -
  have o: "check_api_key demo_keys_file demo_globals ''OPENAI'' = Passed"
    "py_index (VENDORS demo_globals) ''OPENAI'' = Some 1"
    by code_simp+
  have g: "check_api_key demo_keys_file demo_globals ''GOOGLE'' = Passed"
    "py_index (VENDORS demo_globals) ''GOOGLE'' = Some 0"
    by code_simp+
  have a: "check_api_key demo_keys_file demo_globals ''ANTHROPIC'' = Passed"
    "py_index (VENDORS demo_globals) ''ANTHROPIC'' = Some 3"
    by code_simp+
  have src: "VENDOR_KEY_SOURCE demo_globals ! 1 = ''file''" "VENDOR_KEY_SOURCE demo_globals ! 0 = ''file''"
    "VENDOR_KEY_SOURCE demo_globals ! 3 = ''env''"
    by (simp_all add: demo_globals_def)
  have env: "environ demo_globals (''OPENAI'' @ ''_API_KEY'') = Some ''sk-file''"
    "first_set_value (environ demo_globals) [''GEMINI_API_KEY'', ''GOOGLE_API_KEY''] = Some ''AIza-file''"
    by (simp_all add: demo_globals_def truthy_def)
  from main_key_flag_by_source [OF demo_wf o, of "''gpt-4o''"] src(1) env(1)
  have 1: "build_main_model_args demo_globals (Some ''OPENAI'') ''gpt-4o''
     = Inr [''--model'', ''gpt-4o'', ''--openai-api-key'', ''sk-file'']"
    by simp
  from main_key_flag_by_source [OF demo_wf g, of "''gemini-2.5-pro''"] src(2) env(2)
  have 2: "build_main_model_args demo_globals (Some ''GOOGLE'') ''gemini-2.5-pro''
     = Inr [''--model'', ''gemini-2.5-pro'', ''--api-key'', ''google=AIza-file'']"
    by simp
  from main_key_flag_by_source [OF demo_wf a, of "''claude-3-5-haiku-20241022''"] src(3)
  have 3: "build_main_model_args demo_globals (Some ''ANTHROPIC'') ''claude-3-5-haiku-20241022''
     = Inr [''--model'', ''claude-3-5-haiku-20241022'']"
    by simp
  from demo_wf o g a src 1 2 3 show ?thesis by (intro conjI)
qed

text \<open>
  C1 as stated fails: MISTRAL is a configured vendor whose key comes from the credentials
  file and passes \<^verbatim>\<open>check_api_key\<close>, and the arguments built for it contain no key flag
  at all; the command that the wizard launches for this selection has none either.
\<close>

theorem main_key_flag_counterexample:
  "check_api_key demo_keys_file demo_globals ''MISTRAL'' = Passed \<and>
   py_index (VENDORS demo_globals) ''MISTRAL'' = Some 2 \<and>
   VENDOR_KEY_SOURCE demo_globals ! 2 = ''file'' \<and>
   build_main_model_args demo_globals (Some ''MISTRAL'') ''mistral-large''
     = Inr [''--model'', ''mistral-large''] \<and>
   launched (run demo_platform demo_globals initial_wizard [''1'', ''3'', ''1'', ''1'', ''1''])
     = [[''aider'', ''--model'', ''mistral-large'', ''--chat-mode'', ''code'']]"
  by code_simp

text \<open>
  C7. When the editor vendor equals the main vendor, or is the sentinel "default" for
  "use the same vendor and model as the architect", the arguments built for architect
  mode are \<open>--architect\<close>, followed by \<open>--editor-model\<close> and the model when an explicit
  editor model was chosen, and nothing else: no key flag for the editor, whatever the
  sources of the keys are.
\<close>

theorem same_vendor_no_editor_key_flag:
  fixes editor_vendor editor_model main_vendor :: "string option"
  assumes "editor_vendor = main_vendor \<or> editor_vendor = Some ''default''"
  shows "build_architect_args g editor_vendor editor_model main_vendor =
           Inr (''--architect'' #
                (case editor_model of
                   None \<Rightarrow> []
                 | Some model \<Rightarrow> if model = ''default'' then [] else [''--editor-model'', model]))"
  using assms by (auto simp: build_architect_args_def split: option.splits)

theorem same_vendor_no_editor_key_flag_witness:
  "VENDOR_KEY_SOURCE demo_globals ! 1 = ''file'' \<and>
   build_architect_args demo_globals (Some ''OPENAI'') (Some ''gpt-4-turbo'') (Some ''OPENAI'')
     = Inr [''--architect'', ''--editor-model'', ''gpt-4-turbo''] \<and>
   build_architect_args demo_globals (Some ''default'') (Some ''default'') (Some ''OPENAI'')
     = Inr [''--architect'']"
  using same_vendor_no_editor_key_flag
          [where editor_vendor = "Some ''OPENAI''" and main_vendor = "Some ''OPENAI''"
             and g = demo_globals and editor_model = "Some ''gpt-4-turbo''"]
        same_vendor_no_editor_key_flag
          [where editor_vendor = "Some ''default''" and main_vendor = "Some ''OPENAI''"
             and g = demo_globals and editor_model = "Some ''default''"]
  by (simp add: demo_globals_def)

section \<open>SelectionWizard: properties\<close>

text \<open>
  C8. With parallel lists of equal length, every vendor menu (for the code, architect
  and editor role) lists exactly the vendors that have an index whose source is not
  "unset"; a line entered there either makes \<^verbatim>\<open>int\<close> raise its ValueError (a line of
  digits that are not all decimal, or longer than the limit of the conversion), or the
  selection is back, an invalid choice, the reuse sentinel of the editor menu, or one of
  these vendors; without such a vendor the menu prints only "0. Back" and accepts only
  back; and whenever a session is at a model menu, the vendor whose models are shown is
  one of these vendors.
\<close>

theorem vendor_menu_offers_credentialed_vendors:
  assumes len: "length (VENDOR_KEY_SOURCE g) = length (VENDORS g)"
  shows "\<exists>vs. available_vendors g = Inr vs \<and>
           set vs = {VENDORS g ! i | i. i < length (VENDORS g) \<and> VENDOR_KEY_SOURCE g ! i \<noteq> ''unset''} \<and>
           (\<forall>role_label v. menu_entities g Vendor v = Inr (Some vs) \<and>
              menu_lines Vendor role_label vs =
                (if vs = [] then [Back]
                 else map (\<lambda>(i, vendor). Numbered (i + 1) vendor) (zip [0..<length vs] vs)
                      @ (if role_label = Editor then [UseSameAsArchitect] else []) @ [Back])) \<and>
           (\<forall>role_label v raw.
              (select_entity g Vendor role_label v raw = Inl ValueError \<and> vs \<noteq> [] \<and>
               isdigit (strip raw) \<and> py_int (strip raw) = Inl ValueError) \<or>
              (\<exists>r paused.
                 select_entity g Vendor role_label v raw = Inr (r, paused) \<and>
                 (r = None \<or> r = Some ''invalid'' \<or>
                  (role_label = Editor \<and> vs \<noteq> [] \<and> r = Some ''default'') \<or>
                  (\<exists>vendor\<in>set vs. r = Some vendor)))) \<and>
           (vs = [] \<longrightarrow>
              (\<forall>role_label v raw. select_entity g Vendor role_label v raw =
                 Inr (if strip raw = [] \<or> strip raw = ''0'' then (None, False)
                      else (Some ''invalid'', True)))) \<and>
           (\<forall>p ins role_label. pc (run p g initial_wizard ins) = EntitySelect Model role_label \<longrightarrow>
              (\<exists>vendor\<in>set vs. vendor_arg (run p g initial_wizard ins) Model role_label = Some vendor))"
proof -
  from available_vendors_set [OF len] obtain vs where
    vs: "available_vendors g = Inr vs"
      "set vs = {VENDORS g ! i | i. i < length (VENDORS g) \<and> VENDOR_KEY_SOURCE g ! i \<noteq> ''unset''}"
    by blast
  have menu: "\<forall>role_label v. menu_entities g Vendor v = Inr (Some vs) \<and>
      menu_lines Vendor role_label vs =
        (if vs = [] then [Back]
         else map (\<lambda>(i, vendor). Numbered (i + 1) vendor) (zip [0..<length vs] vs)
              @ (if role_label = Editor then [UseSameAsArchitect] else []) @ [Back])"
    using vs(1) by (simp add: menu_entities_def menu_lines_def)
  have results: "\<forall>role_label v raw.
      (select_entity g Vendor role_label v raw = Inl ValueError \<and> vs \<noteq> [] \<and>
       isdigit (strip raw) \<and> py_int (strip raw) = Inl ValueError) \<or>
      (\<exists>r paused.
         select_entity g Vendor role_label v raw = Inr (r, paused) \<and>
         (r = None \<or> r = Some ''invalid'' \<or>
          (role_label = Editor \<and> vs \<noteq> [] \<and> r = Some ''default'') \<or>
          (\<exists>vendor\<in>set vs. r = Some vendor)))"
    by (intro allI) (rule select_entity_vendor_cases [OF vs(1)])
  have none: "vs = [] \<longrightarrow>
      (\<forall>role_label v raw. select_entity g Vendor role_label v raw =
         Inr (if strip raw = [] \<or> strip raw = ''0'' then (None, False)
              else (Some ''invalid'', True)))"
    using select_entity_no_vendors vs(1) by blast
  have models: "\<forall>p ins role_label. pc (run p g initial_wizard ins) = EntitySelect Model role_label \<longrightarrow>
      (\<exists>vendor\<in>set vs. vendor_arg (run p g initial_wizard ins) Model role_label = Some vendor)"
  proof (intro allI impI)
    fix p ins role_label
    assume "pc (run p g initial_wizard ins) = EntitySelect Model role_label"
    from model_menu_vendor [OF session_inv this] vs(1)
    show "\<exists>vendor\<in>set vs. vendor_arg (run p g initial_wizard ins) Model role_label = Some vendor"
      by auto
  qed
  from vs menu results none models show ?thesis
    by (intro exI [of _ vs] conjI)
qed

theorem vendor_menu_offers_credentialed_vendors_witness:
  "length (VENDOR_KEY_SOURCE demo_globals) = length (VENDORS demo_globals) \<and>
   available_vendors demo_globals = Inr [''GOOGLE'', ''OPENAI'', ''MISTRAL'', ''ANTHROPIC''] \<and>
   set [''GOOGLE'', ''OPENAI'', ''MISTRAL'', ''ANTHROPIC''] =
     {VENDORS demo_globals ! i | i.
        i < length (VENDORS demo_globals) \<and> VENDOR_KEY_SOURCE demo_globals ! i \<noteq> ''unset''} \<and>
   select_entity demo_globals Vendor Code None ''3'' = Inr (Some ''MISTRAL'', False) \<and>
   select_entity demo_globals Vendor Code None ''5'' = Inr (Some ''invalid'', True) \<and>
   select_entity demo_globals Vendor Code None [CHR 0xB2] = Inl ValueError \<and>
   pc (run demo_platform demo_globals initial_wizard [''1'', ''4'']) = EntitySelect Model Code \<and>
   vendor_arg (run demo_platform demo_globals initial_wizard [''1'', ''4'']) Model Code
     = Some ''ANTHROPIC'' \<and>
   ''ANTHROPIC'' \<in> set [''GOOGLE'', ''OPENAI'', ''MISTRAL'', ''ANTHROPIC''] \<and>
   length (VENDOR_KEY_SOURCE no_keys_globals) = length (VENDORS no_keys_globals) \<and>
   available_vendors no_keys_globals = Inr [] \<and>
   menu_lines Vendor Editor [] = [Back] \<and>
   select_entity no_keys_globals Vendor Editor None ''9'' = Inr (Some ''invalid'', True) \<and>
   select_entity no_keys_globals Vendor Editor None [CHR 0xA0, CHR ''0''] = Inr (None, False)"
proof -
  let ?s = "run demo_platform demo_globals initial_wizard [''1'', ''4'']"
  have len: "length (VENDOR_KEY_SOURCE demo_globals) = length (VENDORS demo_globals)"
    by (simp add: demo_globals_def)
  have av: "available_vendors demo_globals = Inr [''GOOGLE'', ''OPENAI'', ''MISTRAL'', ''ANTHROPIC'']"
    by code_simp
  have sel3: "select_entity demo_globals Vendor Code None ''3'' = Inr (Some ''MISTRAL'', False)"
    "select_entity demo_globals Vendor Code None ''5'' = Inr (Some ''invalid'', True)"
    "select_entity demo_globals Vendor Code None [CHR 0xB2] = Inl ValueError"
    by code_simp+
  have at: "pc ?s = EntitySelect Model Code" "vendor_arg ?s Model Code = Some ''ANTHROPIC''"
    by code_simp+
  from vendor_menu_offers_credentialed_vendors [OF len] obtain vs where
    vs: "available_vendors demo_globals = Inr vs"
      "set vs = {VENDORS demo_globals ! i | i.
         i < length (VENDORS demo_globals) \<and> VENDOR_KEY_SOURCE demo_globals ! i \<noteq> ''unset''}"
      "\<forall>p ins role_label. pc (run p demo_globals initial_wizard ins) = EntitySelect Model role_label \<longrightarrow>
         (\<exists>vendor\<in>set vs. vendor_arg (run p demo_globals initial_wizard ins) Model role_label
            = Some vendor)"
    by blast
  from vs(1) av have eq: "vs = [''GOOGLE'', ''OPENAI'', ''MISTRAL'', ''ANTHROPIC'']"
    by simp
  note demo = vs(2,3) [unfolded eq]
  from demo(2) at(1)
  have "\<exists>vendor\<in>set [''GOOGLE'', ''OPENAI'', ''MISTRAL'', ''ANTHROPIC''].
      vendor_arg ?s Model Code = Some vendor"
    by blast
  with at(2) have model: "''ANTHROPIC'' \<in> set [''GOOGLE'', ''OPENAI'', ''MISTRAL'', ''ANTHROPIC'']"
    by auto
  have len0: "length (VENDOR_KEY_SOURCE no_keys_globals) = length (VENDORS no_keys_globals)"
    by (simp add: no_keys_globals_def demo_globals_def)
  have av0: "available_vendors no_keys_globals = Inr []"
    by code_simp
  have raws: "strip ''9'' = ''9''" "strip [CHR 0xA0, CHR ''0''] = ''0''"
    by code_simp+
  from vendor_menu_offers_credentialed_vendors [OF len0] obtain ws where
    ws: "available_vendors no_keys_globals = Inr ws"
      "\<forall>role_label v. menu_entities no_keys_globals Vendor v = Inr (Some ws) \<and>
         menu_lines Vendor role_label ws =
           (if ws = [] then [Back]
            else map (\<lambda>(i, vendor). Numbered (i + 1) vendor) (zip [0..<length ws] ws)
                 @ (if role_label = Editor then [UseSameAsArchitect] else []) @ [Back])"
      "ws = [] \<longrightarrow>
         (\<forall>role_label v raw. select_entity no_keys_globals Vendor role_label v raw =
            Inr (if strip raw = [] \<or> strip raw = ''0'' then (None, False)
                 else (Some ''invalid'', True)))"
    by blast
  from ws(1) av0 have eq0: "ws = []"
    by simp
  from ws(2) [rule_format, of None Editor] eq0 have none1: "menu_lines Vendor Editor [] = [Back]"
    by simp
  from ws(3) eq0 have none2: "\<forall>role_label v raw. select_entity no_keys_globals Vendor role_label v raw =
       Inr (if strip raw = [] \<or> strip raw = ''0'' then (None, False) else (Some ''invalid'', True))"
    by simp
  from none2 raws
  have sel: "select_entity no_keys_globals Vendor Editor None ''9'' = Inr (Some ''invalid'', True)"
    "select_entity no_keys_globals Vendor Editor None [CHR 0xA0, CHR ''0''] = Inr (None, False)"
    by simp_all
  from len av demo(1) sel3 at model len0 av0 none1 sel show ?thesis
    by (intro conjI)
qed

text \<open>
  C9. At the editor vendor menu the input "9" (surrounding blanks stripped) is taken as
  the sentinel "use the same vendor and model as the architect" before any numeric
  reading: with at least one vendor listed the selection result is "default", and in
  every session that is at the editor vendor menu the wizard stores "default" as editor
  vendor and editor model and goes on to the edit format, without a model menu for any
  vendor. With nine or more vendors listed, the same input at the menu of a main vendor
  selects the ninth vendor; at the editor menu it never does.
\<close>

theorem nine_at_editor_vendor_is_reuse_main:
  assumes nine: "strip raw = ''9''"
  shows "(\<forall>vs v. available_vendors g = Inr vs \<and> vs \<noteq> [] \<longrightarrow>
            select_entity g Vendor Editor v raw = Inr (Some ''default'', False)) \<and>
         (\<forall>vs v role_label. available_vendors g = Inr vs \<and> 9 \<le> length vs \<and> role_label \<noteq> Editor \<longrightarrow>
            select_entity g Vendor role_label v raw = Inr (Some (vs ! 8), False)) \<and>
         (\<forall>p ins. pc (run p g initial_wizard ins) = EntitySelect Vendor Editor \<longrightarrow>
            step p g (run p g initial_wizard ins) raw =
              (run p g initial_wizard ins)
                \<lparr>editor_vendor := Some ''default'', editor_model := Some ''default'',
                 pc := FormatSelect ArchitectMode\<rparr>)"
proof (intro conjI allI impI; (elim conjE)?)
  fix vs v
  assume "available_vendors g = Inr vs" "vs \<noteq> []"
  with nine show "select_entity g Vendor Editor v raw = Inr (Some ''default'', False)"
    by (rule select_entity_editor_9)
next
  fix vs v role_label
  assume "available_vendors g = Inr vs" "9 \<le> length vs" "role_label \<noteq> Editor"
  with nine show "select_entity g Vendor role_label v raw = Inr (Some (vs ! 8), False)"
    by (rule select_entity_main_9)
next
  fix p ins
  let ?s = "run p g initial_wizard ins"
  assume at: "pc ?s = EntitySelect Vendor Editor"
  from editor_vendor_menu_nonempty [OF session_inv at] obtain vs where
    "available_vendors g = Inr vs" "vs \<noteq> []"
    by blast
  with nine have "select_entity g Vendor Editor (vendor_arg ?s Vendor Editor) raw =
      Inr (Some ''default'', False)"
    by (rule select_entity_editor_9)
  with at show "step p g ?s raw =
      ?s\<lparr>editor_vendor := Some ''default'', editor_model := Some ''default'',
         pc := FormatSelect ArchitectMode\<rparr>"
    by (simp add: step_def after_select_def)
qed

theorem nine_at_editor_vendor_is_reuse_main_witness:
  "strip '' 9'' = ''9'' \<and>
   available_vendors nine_globals = Inr nine_vendors \<and> 9 \<le> length nine_vendors \<and>
   nine_vendors ! 8 = ''V9'' \<and>
   select_entity nine_globals Vendor Editor None '' 9'' = Inr (Some ''default'', False) \<and>
   select_entity nine_globals Vendor Architect None '' 9'' = Inr (Some ''V9'', False) \<and>
   pc (run demo_platform nine_globals initial_wizard [''2'', ''9'', ''1'']) = EntitySelect Vendor Editor \<and>
   step demo_platform nine_globals
     (run demo_platform nine_globals initial_wizard [''2'', ''9'', ''1'']) '' 9'' =
     (run demo_platform nine_globals initial_wizard [''2'', ''9'', ''1''])
       \<lparr>editor_vendor := Some ''default'', editor_model := Some ''default'',
        pc := FormatSelect ArchitectMode\<rparr>"
proof -
  let ?s = "run demo_platform nine_globals initial_wizard [''2'', ''9'', ''1'']"
  have raw: "strip '' 9'' = ''9''"
    by code_simp
  have av: "available_vendors nine_globals = Inr nine_vendors"
    by code_simp
  have many: "9 \<le> length nine_vendors" "nine_vendors \<noteq> []" "nine_vendors ! 8 = ''V9''"
    by (simp_all add: nine_vendors_def)
  have at: "pc ?s = EntitySelect Vendor Editor"
    by code_simp
  note inst = nine_at_editor_vendor_is_reuse_main [OF raw, of nine_globals]
  from inst av many(2)
  have 1: "select_entity nine_globals Vendor Editor None '' 9'' = Inr (Some ''default'', False)"
    by blast
  from inst av many(1)
  have "select_entity nine_globals Vendor Architect None '' 9'' = Inr (Some (nine_vendors ! 8), False)"
    by blast
  with many(3)
  have 2: "select_entity nine_globals Vendor Architect None '' 9'' = Inr (Some ''V9'', False)"
    by simp
  from inst at
  have 3: "step demo_platform nine_globals ?s '' 9'' =
      ?s\<lparr>editor_vendor := Some ''default'', editor_model := Some ''default'',
         pc := FormatSelect ArchitectMode\<rparr>"
    by blast
  from raw av many(1,3) 1 2 at 3 show ?thesis
    by (intro conjI)
qed

text \<open>
  C2, as amended. In every session, at every selection step (the menu of the main
  vendor, the main model, the editor vendor, the editor model or the edit format),
  entering back (an empty line or "0") returns control to the top-level mode menu and
  drops the selection made so far, whichever step it is; it does not return to the step
  before. Only the launch confirmation leads back one step: "2" returns to the edit
  format menu, and "0" returns to the mode menu. Back at the mode menu ends the process
  with status 0.
\<close>

theorem back_returns_to_mode_menu:
  assumes s: "s = run p g initial_wizard ins"
    and len: "length (VENDORS g) \<le> length (VENDOR_KEY_SOURCE g)"
  shows "(selection_step (pc s) \<and> (strip raw = [] \<or> strip raw = ''0'') \<longrightarrow>
            step p g s raw = return_to_main s \<and> pc (step p g s raw) = ModeSelect) \<and>
         (\<forall>mode. pc s = LaunchConfirm mode \<and> strip raw = ''2'' \<longrightarrow>
            pc (step p g s raw) = FormatSelect mode) \<and>
         (\<forall>mode. pc s = LaunchConfirm mode \<and> strip raw = ''0'' \<longrightarrow>
            step p g s raw = return_to_main s \<and> pc (step p g s raw) = ModeSelect) \<and>
         (pc s = ModeSelect \<and> (strip raw = [] \<or> strip raw = ''0'') \<longrightarrow>
            pc (step p g s raw) = Exited 0)"
proof (intro conjI allI impI; elim conjE)
  from s have inv: "wizard_inv p g s"
    by (simp add: session_inv)
  assume sel: "selection_step (pc s)" and bk: "strip raw = [] \<or> strip raw = ''0''"
  have "step p g s raw = return_to_main s"
  proof (cases "pc s")
    case (EntitySelect entity_type role_label)
    from menu_entities_defined [OF inv this len] obtain entities where
      "menu_entities g entity_type (vendor_arg s entity_type role_label) = Inr (Some entities)"
      by blast
    with EntitySelect bk show ?thesis by (rule step_entity_back)
  next
    case (FormatSelect mode)
    then show ?thesis using bk by (rule step_format_back)
  qed (use sel in simp_all)
  then show "step p g s raw = return_to_main s" "pc (step p g s raw) = ModeSelect"
    by (simp_all add: return_to_main_def)
next
  fix mode
  assume "pc s = LaunchConfirm mode" "strip raw = ''2''"
  then show "pc (step p g s raw) = FormatSelect mode"
    by (simp add: step_def launch_confirm_def)
next
  fix mode
  assume "pc s = LaunchConfirm mode" "strip raw = ''0''"
  then show "step p g s raw = return_to_main s" "pc (step p g s raw) = ModeSelect"
    by (simp_all add: step_def launch_confirm_def return_to_main_def)
next
  assume "pc s = ModeSelect" "strip raw = [] \<or> strip raw = ''0''"
  then show "pc (step p g s raw) = Exited 0"
    by (auto simp: step_def)
qed

theorem back_returns_to_mode_menu_witness:
  "length (VENDORS demo_globals) \<le> length (VENDOR_KEY_SOURCE demo_globals) \<and>
   pc (run demo_platform demo_globals initial_wizard [''2'', ''1'', ''1'', ''2''])
     = EntitySelect Model Editor \<and>
   pc (step demo_platform demo_globals
        (run demo_platform demo_globals initial_wizard [''2'', ''1'', ''1'', ''2'']) ''0'') = ModeSelect \<and>
   pc (run demo_platform demo_globals initial_wizard [''2'', ''1'', ''1'', ''2'', ''1'', ''1''])
     = LaunchConfirm ArchitectMode \<and>
   pc (step demo_platform demo_globals
        (run demo_platform demo_globals initial_wizard [''2'', ''1'', ''1'', ''2'', ''1'', ''1'']) ''2'')
     = FormatSelect ArchitectMode \<and>
   pc (step demo_platform demo_globals
        (run demo_platform demo_globals initial_wizard [''2'', ''1'', ''1'', ''2'', ''1'', ''1'']) ''0'')
     = ModeSelect \<and>
   pc (step demo_platform demo_globals (run demo_platform demo_globals initial_wizard []) '''')
     = Exited 0"
proof -
  let ?s1 = "run demo_platform demo_globals initial_wizard [''2'', ''1'', ''1'', ''2'']"
  let ?s2 = "run demo_platform demo_globals initial_wizard [''2'', ''1'', ''1'', ''2'', ''1'', ''1'']"
  let ?s0 = "run demo_platform demo_globals initial_wizard []"
  have len: "length (VENDORS demo_globals) \<le> length (VENDOR_KEY_SOURCE demo_globals)"
    by (simp add: demo_globals_def)
  have pcs: "pc ?s1 = EntitySelect Model Editor" "pc ?s2 = LaunchConfirm ArchitectMode"
    "pc ?s0 = ModeSelect"
    by code_simp+
  have raws: "strip ''0'' = ''0''" "strip ''2'' = ''2''" "strip '''' = []"
    by code_simp+
  from back_returns_to_mode_menu [OF refl len, where p = demo_platform
      and ins = "[''2'', ''1'', ''1'', ''2'']" and raw = "''0''"] pcs(1) raws(1)
  have 1: "pc (step demo_platform demo_globals ?s1 ''0'') = ModeSelect"
    by (simp add: pc_return_to_main)
  from back_returns_to_mode_menu [OF refl len, where p = demo_platform
      and ins = "[''2'', ''1'', ''1'', ''2'', ''1'', ''1'']" and raw = "''2''"] pcs(2) raws(2)
  have 2: "pc (step demo_platform demo_globals ?s2 ''2'') = FormatSelect ArchitectMode"
    by simp
  from back_returns_to_mode_menu [OF refl len, where p = demo_platform
      and ins = "[''2'', ''1'', ''1'', ''2'', ''1'', ''1'']" and raw = "''0''"] pcs(2) raws(1)
  have 3: "pc (step demo_platform demo_globals ?s2 ''0'') = ModeSelect"
    by (simp add: pc_return_to_main)
  from back_returns_to_mode_menu [OF refl len, where p = demo_platform
      and ins = "[]" and raw = "''''"] pcs(3) raws(3)
  have 4: "pc (step demo_platform demo_globals ?s0 '''') = Exited 0"
    by simp
  from len pcs(1,2) 1 2 3 4
  show ?thesis by (intro conjI)
qed

text \<open>
  C2 as stated fails: in architect mode, after the main vendor has been chosen, back at
  the menu of the main model leads to the mode menu, not to the vendor menu before it.
\<close>

theorem back_skips_to_mode_menu_counterexample:
  "pc (run demo_platform demo_globals initial_wizard [''2'', ''1'']) = EntitySelect Model Architect \<and>
   pc (run demo_platform demo_globals initial_wizard [''2'', ''1'', ''0'']) = ModeSelect \<and>
   pc (run demo_platform demo_globals initial_wizard [''2'', ''1'', ''0''])
     \<noteq> EntitySelect Vendor Architect"
  by code_simp

text \<open>
  C6, as amended. When the launched tool returns a code other than 0 (or the call that
  runs it raises), and when the probe returns a code other than 0 because the tool is
  not on the path, \<^verbatim>\<open>launch_aider\<close> reports the error and waits for Enter; after it the
  wizard is back at the mode menu, where the process goes on. The process ends with
  status 0 on quit (an empty line or "0") at the mode menu.
\<close>

theorem tool_failure_returns_to_mode_menu:
  shows "(\<forall>mode. pc s = LaunchConfirm mode \<and> (strip raw = [] \<or> strip raw = ''1'') \<and>
            subprocess_run p (current_cmd_list (cmd_list s) (selected_format s)) \<noteq> Returncode 0 \<longrightarrow>
            pc (step p g s raw) = LaunchAbort mode) \<and>
         (\<forall>mode chosen model cmd returncode. pc s = FormatSelect mode \<and>
            select_edit_format g mode raw = Inr (Some chosen, False) \<and> chosen \<noteq> ''invalid'' \<and>
            main_model s = Some model \<and>
            base_cmd_list g mode (main_vendor s) model (editor_vendor s) (editor_model s) = Inr cmd \<and>
            command_v_aider p = Returncode returncode \<and> returncode \<noteq> 0 \<longrightarrow>
            pc (step p g s raw) = LaunchAbort mode) \<and>
         (\<forall>mode. pc s = LaunchAbort mode \<longrightarrow>
            step p g s raw = return_to_main s \<and> pc (step p g s raw) = ModeSelect) \<and>
         (pc s = ModeSelect \<and> (strip raw = [] \<or> strip raw = ''0'') \<longrightarrow>
            pc (step p g s raw) = Exited 0)"
proof (intro conjI allI impI; (elim conjE)?)
  fix mode
  assume "pc s = LaunchConfirm mode" "strip raw = [] \<or> strip raw = ''1''"
    "subprocess_run p (current_cmd_list (cmd_list s) (selected_format s)) \<noteq> Returncode 0"
  then show "pc (step p g s raw) = LaunchAbort mode"
    by (auto simp: step_def launch_confirm_def Let_def split: run_result.splits)
next
  fix mode chosen model cmd returncode
  assume "pc s = FormatSelect mode" "select_edit_format g mode raw = Inr (Some chosen, False)"
    "chosen \<noteq> ''invalid''" "main_model s = Some model"
    "base_cmd_list g mode (main_vendor s) model (editor_vendor s) (editor_model s) = Inr cmd"
    "command_v_aider p = Returncode returncode" "returncode \<noteq> 0"
  then show "pc (step p g s raw) = LaunchAbort mode"
    by (simp add: step_def launch_aider_start_def)
next
  fix mode
  assume "pc s = LaunchAbort mode"
  then show "step p g s raw = return_to_main s" "pc (step p g s raw) = ModeSelect"
    by (simp_all add: step_def return_to_main_def)
next
  assume "pc s = ModeSelect" "strip raw = [] \<or> strip raw = ''0''"
  then show "pc (step p g s raw) = Exited 0"
    by (auto simp: step_def)
qed

theorem tool_failure_returns_to_mode_menu_witness:
  "pc (run demo_platform demo_globals initial_wizard [''1'', ''2'', ''1'', ''1'']) = LaunchConfirm CodeMode \<and>
   pc (step demo_platform demo_globals
        (run demo_platform demo_globals initial_wizard [''1'', ''2'', ''1'', ''1'']) ''1'')
     = LaunchAbort CodeMode \<and>
   pc (run demo_platform demo_globals initial_wizard [''1'', ''2'', ''1'']) = FormatSelect CodeMode \<and>
   pc (step (demo_platform\<lparr>command_v_aider := Returncode 1\<rparr>) demo_globals
        (run demo_platform demo_globals initial_wizard [''1'', ''2'', ''1'']) ''2'')
     = LaunchAbort CodeMode \<and>
   pc (step demo_platform demo_globals
        (run demo_platform demo_globals initial_wizard [''1'', ''2'', ''1'', ''1'', ''1'']) ''ok'')
     = ModeSelect \<and>
   pc (step demo_platform demo_globals initial_wizard ''0'') = Exited 0"
proof -
  let ?c = "run demo_platform demo_globals initial_wizard [''1'', ''2'', ''1'', ''1'']"
  let ?f = "run demo_platform demo_globals initial_wizard [''1'', ''2'', ''1'']"
  let ?a = "run demo_platform demo_globals initial_wizard [''1'', ''2'', ''1'', ''1'', ''1'']"
  let ?p1 = "demo_platform\<lparr>command_v_aider := Returncode 1\<rparr>"
  have pcs: "pc ?c = LaunchConfirm CodeMode" "pc ?f = FormatSelect CodeMode"
    "pc ?a = LaunchAbort CodeMode" "pc initial_wizard = ModeSelect"
    by code_simp+
  have raws: "strip ''1'' = ''1''" "strip ''0'' = ''0''"
    by code_simp+
  have fails: "subprocess_run demo_platform (current_cmd_list (cmd_list ?c) (selected_format ?c))
      \<noteq> Returncode 0"
    by (simp add: demo_platform_def)
  have fmt: "select_edit_format demo_globals CodeMode ''2'' = Inr (Some ''whole'', False)"
    "''whole'' \<noteq> ''invalid''"
    by code_simp+
  have model: "main_model ?f = Some ''gpt-4o''"
    by code_simp
  have cmd: "base_cmd_list demo_globals CodeMode (main_vendor ?f) ''gpt-4o''
      (editor_vendor ?f) (editor_model ?f)
      = Inr [''aider'', ''--model'', ''gpt-4o'', ''--openai-api-key'', ''sk-file'', ''--chat-mode'', ''code'']"
    by code_simp
  have probe: "command_v_aider ?p1 = Returncode 1" "(1::int) \<noteq> 0"
    by simp_all
  from tool_failure_returns_to_mode_menu [of ?c "''1''" demo_platform demo_globals] pcs(1) raws(1) fails
  have 1: "pc (step demo_platform demo_globals ?c ''1'') = LaunchAbort CodeMode"
    by simp
  from tool_failure_returns_to_mode_menu [of ?f "''2''" ?p1 demo_globals] pcs(2) fmt model cmd probe
  have 2: "pc (step ?p1 demo_globals ?f ''2'') = LaunchAbort CodeMode"
    by blast
  from tool_failure_returns_to_mode_menu [of ?a "''ok''" demo_platform demo_globals] pcs(3)
  have 3: "pc (step demo_platform demo_globals ?a ''ok'') = ModeSelect"
    by (simp add: pc_return_to_main)
  from tool_failure_returns_to_mode_menu [of initial_wizard "''0''" demo_platform demo_globals]
    pcs(4) raws(2)
  have 4: "pc (step demo_platform demo_globals initial_wizard ''0'') = Exited 0"
    by simp
  from pcs(1,2) 1 2 3 4 show ?thesis by (intro conjI)
qed

text \<open>
  C6 as stated fails: the launched tool returns 2, and the process is not ended with
  status 1; after Enter the mode menu is shown again. The same holds when the probe
  returns 1 because the tool is missing.
\<close>

theorem tool_failure_counterexample:
  "subprocess_run demo_platform
     [''aider'', ''--model'', ''gpt-4o'', ''--openai-api-key'', ''sk-file'', ''--chat-mode'', ''code'']
     = Returncode 2 \<and>
   launched (run demo_platform demo_globals initial_wizard [''1'', ''2'', ''1'', ''1'', ''1''])
     = [[''aider'', ''--model'', ''gpt-4o'', ''--openai-api-key'', ''sk-file'', ''--chat-mode'', ''code'']] \<and>
   pc (run demo_platform demo_globals initial_wizard [''1'', ''2'', ''1'', ''1'', ''1''])
     = LaunchAbort CodeMode \<and>
   pc (run demo_platform demo_globals initial_wizard [''1'', ''2'', ''1'', ''1'', ''1'', ''''])
     = ModeSelect \<and>
   pc (run demo_platform demo_globals initial_wizard [''1'', ''2'', ''1'', ''1'', ''1'', ''''])
     \<noteq> Exited 1 \<and>
   command_v_aider (demo_platform\<lparr>command_v_aider := Returncode 1\<rparr>) = Returncode 1 \<and>
   pc (run (demo_platform\<lparr>command_v_aider := Returncode 1\<rparr>) demo_globals initial_wizard
         [''1'', ''2'', ''1'', ''1''])
     = LaunchAbort CodeMode \<and>
   pc (run (demo_platform\<lparr>command_v_aider := Returncode 1\<rparr>) demo_globals initial_wizard
         [''1'', ''2'', ''1'', ''1'', ''''])
     = ModeSelect \<and>
   pc (run (demo_platform\<lparr>command_v_aider := Returncode 1\<rparr>) demo_globals initial_wizard
         [''1'', ''2'', ''1'', ''1'', ''''])
     \<noteq> Exited 1"
  by code_simp

text \<open>
  C10. Over any sequence of inputs that keeps the wizard inside the loop of format
  selection and launch confirmation (the format menu, the confirmation menu and their
  pauses), the main vendor, the main model, the editor vendor and the editor model of
  the selection in progress are the ones with which the loop was entered, however often
  the operator returns from the confirmation to the format menu.
\<close>

theorem format_loop_keeps_models:
  assumes "\<forall>k\<le>length ins. in_format_loop (pc (run p g s (take k ins)))"
  shows "main_vendor (run p g s ins) = main_vendor s \<and>
         main_model (run p g s ins) = main_model s \<and>
         editor_vendor (run p g s ins) = editor_vendor s \<and>
         editor_model (run p g s ins) = editor_model s"
  using assms
proof (induction ins arbitrary: s)
  case Nil
  show ?case by simp
next
  case (Cons raw rest)
  from Cons.prems [rule_format, of 0] have here: "in_format_loop (pc s)"
    by simp
  from Cons.prems [rule_format, of 1] have there: "in_format_loop (pc (step p g s raw))"
    by simp
  have "\<forall>k\<le>length rest. in_format_loop (pc (run p g (step p g s raw) (take k rest)))"
  proof (intro allI impI)
    fix k
    assume "k \<le> length rest"
    with Cons.prems [rule_format, of "Suc k"]
    show "in_format_loop (pc (run p g (step p g s raw) (take k rest)))"
      by simp
  qed
  from Cons.IH [OF this] format_loop_step_frame [OF here there]
  show ?case by simp
qed

theorem format_loop_keeps_models_witness:
  "map (\<lambda>k. pc (run demo_platform demo_globals
                  (run demo_platform demo_globals initial_wizard [''2'', ''1'', ''1'', ''2'', ''2''])
                  (take k [''2'', ''2'', ''3'', ''x'', '''']))) [0..<6]
     = [FormatSelect ArchitectMode, LaunchConfirm ArchitectMode, FormatSelect ArchitectMode,
        LaunchConfirm ArchitectMode, LaunchPause ArchitectMode, LaunchConfirm ArchitectMode] \<and>
   selected_format (run demo_platform demo_globals
        (run demo_platform demo_globals initial_wizard [''2'', ''1'', ''1'', ''2'', ''2''])
        [''2'', ''2'', ''3'', ''x'', '''']) = Some ''editor-diff'' \<and>
   main_vendor (run demo_platform demo_globals
        (run demo_platform demo_globals initial_wizard [''2'', ''1'', ''1'', ''2'', ''2''])
        [''2'', ''2'', ''3'', ''x'', '''']) = Some ''GOOGLE'' \<and>
   main_model (run demo_platform demo_globals
        (run demo_platform demo_globals initial_wizard [''2'', ''1'', ''1'', ''2'', ''2''])
        [''2'', ''2'', ''3'', ''x'', '''']) = Some ''gemini-2.5-pro'' \<and>
   editor_vendor (run demo_platform demo_globals
        (run demo_platform demo_globals initial_wizard [''2'', ''1'', ''1'', ''2'', ''2''])
        [''2'', ''2'', ''3'', ''x'', '''']) = Some ''OPENAI'' \<and>
   editor_model (run demo_platform demo_globals
        (run demo_platform demo_globals initial_wizard [''2'', ''1'', ''1'', ''2'', ''2''])
        [''2'', ''2'', ''3'', ''x'', '''']) = Some ''gpt-4-turbo''"
proof -
  let ?s = "run demo_platform demo_globals initial_wizard [''2'', ''1'', ''1'', ''2'', ''2'']"
  let ?ins = "[''2'', ''2'', ''3'', ''x'', '''']"
  have trace: "map (\<lambda>k. pc (run demo_platform demo_globals ?s (take k ?ins))) [0..<6]
     = [FormatSelect ArchitectMode, LaunchConfirm ArchitectMode, FormatSelect ArchitectMode,
        LaunchConfirm ArchitectMode, LaunchPause ArchitectMode, LaunchConfirm ArchitectMode]"
    by code_simp
  have each: "\<forall>k\<in>set [0..<6]. in_format_loop (pc (run demo_platform demo_globals ?s (take k ?ins)))"
    by code_simp
  have loop: "\<forall>k\<le>length ?ins. in_format_loop (pc (run demo_platform demo_globals ?s (take k ?ins)))"
  proof (intro allI impI)
    fix k :: nat
    assume "k \<le> length ?ins"
    then have "k \<in> set [0..<6]" by simp
    with each show "in_format_loop (pc (run demo_platform demo_globals ?s (take k ?ins)))"
      by (rule bspec)
  qed
  have start: "main_vendor ?s = Some ''GOOGLE''"
    "main_model ?s = Some ''gemini-2.5-pro''" "editor_vendor ?s = Some ''OPENAI''"
    "editor_model ?s = Some ''gpt-4-turbo''"
    by code_simp+
  have fmt: "selected_format (run demo_platform demo_globals ?s ?ins) = Some ''editor-diff''"
    by code_simp
  from format_loop_keeps_models [OF loop] start
  have same: "main_vendor (run demo_platform demo_globals ?s ?ins) = Some ''GOOGLE''"
    "main_model (run demo_platform demo_globals ?s ?ins) = Some ''gemini-2.5-pro''"
    "editor_vendor (run demo_platform demo_globals ?s ?ins) = Some ''OPENAI''"
    "editor_model (run demo_platform demo_globals ?s ?ins) = Some ''gpt-4-turbo''"
    by simp_all
  from trace fmt same show ?thesis
    by (intro conjI)
qed

end
